theory Spec2Isabelle
  imports Complex_Main "HOL-Library.Char_ord" "HOL-Library.List_Lexorder" "HOL-Library.Multiset"
begin

section \<open>Carbon emission model selection: the data model\<close>

text \<open>
  The program (\<^verbatim>\<open>carbon_model.py\<close>) is glue code around a data-frame library and a
  machine-learning library. Its own functions are \<^verbatim>\<open>preprocess_data\<close>,
  \<^verbatim>\<open>train_model\<close>, \<^verbatim>\<open>feature_importance_analysis\<close> and \<^verbatim>\<open>main\<close>. The library
  calls they make are written out below as far as the program's behaviour depends on
  them (column selection by dtype, dropping a column, the one-hot encoder, the column
  transformer, the imputer, the split sizes, the metrics, the data-frame constructor and
  its sort); the numeric kernels that the program only passes through (tree fitting,
  the shuffle, the sort routine, the arithmetic of doubles in the metrics, number
  formatting) are parameters, collected in the record \<open>lib\<close>.
\<close>

subsection \<open>Exceptions\<close>

text \<open>
  Every exception is a value. \<open>KeyError\<close>, \<open>ValueError\<close>, \<open>TypeError\<close> and
  \<open>NotFittedError\<close> are the classes the libraries raise on the paths modelled here. The
  program defines no exception class of its own and has no \<^verbatim>\<open>raise\<close> statement; the last
  four constructors are the names of the specification's error taxonomy, present so that
  statements about them can be written down.
\<close>

datatype error =
    KeyError | ValueError | TypeError | NotFittedError
  | SchemaError | UndefinedMetricError | EmptyCandidateSetError | FeatureNameMismatchError

subsection \<open>Floating-point scores\<close>

text \<open>
  A score is a Python float: a finite number (the real it denotes), an infinity or NaN.
  \<open>float_gt\<close> is Python's \<^verbatim>\<open>>\<close> on floats: every comparison with NaN is false.
\<close>

datatype pyfloat = Fin real | PosInf | NegInf | NaN

fun float_gt :: "pyfloat \<Rightarrow> pyfloat \<Rightarrow> bool" where
  "float_gt NaN _ = False"
| "float_gt _ NaN = False"
| "float_gt (Fin a) (Fin b) = (b < a)"
| "float_gt (Fin _) NegInf = True"
| "float_gt (Fin _) PosInf = False"
| "float_gt PosInf PosInf = False"
| "float_gt PosInf _ = True"
| "float_gt NegInf _ = False"

fun is_finite :: "pyfloat \<Rightarrow> bool" where
  "is_finite (Fin _) = True"
| "is_finite _ = False"

fun float_le :: "pyfloat \<Rightarrow> pyfloat \<Rightarrow> bool" where
  "float_le NaN _ = False"
| "float_le _ NaN = False"
| "float_le a b = (\<not> float_gt a b)"

subsection \<open>Tables\<close>

text \<open>
  A data frame is a list of columns in their order; a column has a label, a declared
  dtype and its cells. A cell is a number, a string or a missing value (NaN / None).
  Tables read by \<^verbatim>\<open>pd.read_csv\<close> have distinct column labels.

  The dtypes are numpy's \<^verbatim>\<open>int64\<close>, \<^verbatim>\<open>float64\<close>, \<^verbatim>\<open>object\<close>, \<^verbatim>\<open>bool\<close>, \<^verbatim>\<open>int32\<close>,
  \<^verbatim>\<open>float32\<close> and \<^verbatim>\<open>datetime64\<close>, and pandas' own \<^verbatim>\<open>category\<close>, \<^verbatim>\<open>str\<close> (the string
  dtype), \<^verbatim>\<open>Int64\<close> and \<^verbatim>\<open>Float64\<close> (the nullable 64-bit integers and floats). Any
  other dtype (\<^verbatim>\<open>uint64\<close>, \<^verbatim>\<open>timedelta64\<close>, the nullable \<^verbatim>\<open>boolean\<close>, ...) is
  \<open>OtherDtype\<close> with its name; its scalar type is none of \<^verbatim>\<open>int64\<close>, \<^verbatim>\<open>float64\<close>,
  \<^verbatim>\<open>object\<close> and the categorical one. An Arrow-backed dtype counts as the numpy dtype it
  converts to.
\<close>

datatype dtype =
    Int64 | Float64 | Object | Category | Bool | Int32 | Float32 | Datetime64
  | StringDtype | NullableInt64 | NullableFloat64 | OtherDtype string

datatype cell = Num real | Str string | Missing

record column =
  col_name :: string
  col_dtype :: dtype
  col_values :: "cell list"

type_synonym dataframe = "column list"

definition columns :: "dataframe \<Rightarrow> string list" where
  "columns df = map col_name df"

definition n_rows :: "dataframe \<Rightarrow> nat" where
  "n_rows df = (case df of [] \<Rightarrow> 0 | c # _ \<Rightarrow> length (col_values c))"

text \<open>\<^verbatim>\<open>df.drop(label, axis=1)\<close>: KeyError when no column has the label.\<close>

definition drop_column :: "dataframe \<Rightarrow> string \<Rightarrow> error + dataframe" where
  "drop_column df label =
     (if label \<in> set (columns df) then Inr (filter (\<lambda>c. col_name c \<noteq> label) df)
      else Inl KeyError)"

text \<open>\<^verbatim>\<open>df[label]\<close>: KeyError when no column has the label.\<close>

definition getitem :: "dataframe \<Rightarrow> string \<Rightarrow> error + column" where
  "getitem df label =
     (case filter (\<lambda>c. col_name c = label) df of
        [] \<Rightarrow> Inl KeyError
      | c # _ \<Rightarrow> Inr c)"

text \<open>
  \<^verbatim>\<open>df.select_dtypes(include=...).columns.tolist()\<close>: the labels of the columns whose
  dtype matches one of the listed ones, in the table's order. A dtype matches an entry
  when its scalar type is the entry's: besides the dtype itself, the nullable \<^verbatim>\<open>Int64\<close>
  matches \<^verbatim>\<open>int64\<close> and the nullable \<^verbatim>\<open>Float64\<close> matches \<^verbatim>\<open>float64\<close>; and string columns
  are selected under \<^verbatim>\<open>object\<close>.
\<close>

definition dtype_matches :: "dtype \<Rightarrow> dtype \<Rightarrow> bool" where
  "dtype_matches d entry \<longleftrightarrow>
     d = entry \<or> (entry = Object \<and> d = StringDtype)
     \<or> (entry = Int64 \<and> d = NullableInt64) \<or> (entry = Float64 \<and> d = NullableFloat64)"

definition select_dtypes :: "dataframe \<Rightarrow> dtype list \<Rightarrow> string list" where
  "select_dtypes df include =
     map col_name (filter (\<lambda>c. list_ex (dtype_matches (col_dtype c)) include) df)"

subsection \<open>Objects and the store\<close>

text \<open>
  The program builds library objects and passes references to them around; fitting an
  object changes it in place. Objects therefore live in a store, at addresses.
  A fitted attribute (\<^verbatim>\<open>categories_\<close>, \<^verbatim>\<open>transformers_\<close>, ...) is \<open>None\<close> until the
  object is fitted. \<open>'m\<close> is the type of a fitted tree ensemble.
\<close>

type_synonym addr = nat

datatype handle_unknown = HU_error | HU_ignore

datatype estimator_kind = RandomForestRegressor | GradientBoostingRegressor

datatype 'm obj =
    StandardScaler "(real option \<times> real option) list option"
  | OneHotEncoder handle_unknown "cell list list option"
  | ColumnTransformer "(string \<times> addr \<times> string list) list"
                      "(string \<times> addr \<times> string list) list option"
  | SimpleImputer "real option list option"
  | Regressor estimator_kind nat "nat option" "(nat \<times> 'm) option"

record 'm store =
  objs :: "addr \<Rightarrow> 'm obj option"
  next_addr :: addr

definition alloc :: "'m store \<Rightarrow> 'm obj \<Rightarrow> addr \<times> 'm store" where
  "alloc s ob = (next_addr s, s\<lparr>objs := (objs s)(next_addr s \<mapsto> ob), next_addr := Suc (next_addr s)\<rparr>)"

definition put :: "'m store \<Rightarrow> addr \<Rightarrow> 'm obj \<Rightarrow> 'm store" where
  "put s a ob = s\<lparr>objs := (objs s)(a \<mapsto> ob)\<rparr>"

definition empty_store :: "'m store" where
  "empty_store = \<lparr>objs = (\<lambda>_. None), next_addr = 0\<rparr>"

section \<open>preprocess\_data\<close>

text \<open>
  Lines 23--43. The target column is dropped (KeyError when absent), the remaining
  columns are routed by dtype into two label lists, and one \<^verbatim>\<open>ColumnTransformer\<close> is
  built over a fresh scaler and a fresh encoder with \<^verbatim>\<open>handle_unknown='ignore'\<close>.
  Returns the store and \<^verbatim>\<open>(X, y, preprocessor, categorical_cols, numerical_cols)\<close>.
\<close>

definition categorical_dtypes :: "dtype list" where
  "categorical_dtypes = [Object, Category]"

definition numerical_dtypes :: "dtype list" where
  "numerical_dtypes = [Int64, Float64]"

definition preprocess_data ::
  "'m store \<Rightarrow> dataframe \<Rightarrow>
     error + ('m store \<times> dataframe \<times> column \<times> addr \<times> string list \<times> string list)" where
  "preprocess_data s df =
     (case drop_column df ''CarbonEmission'' of
        Inl e \<Rightarrow> Inl e
      | Inr X \<Rightarrow>
     (case getitem df ''CarbonEmission'' of
        Inl e \<Rightarrow> Inl e
      | Inr y \<Rightarrow>
          let categorical_cols = select_dtypes X categorical_dtypes;
              numerical_cols = select_dtypes X numerical_dtypes;
              (scaler, s1) = alloc s (StandardScaler None);
              (encoder, s2) = alloc s1 (OneHotEncoder HU_ignore None);
              (preprocessor, s3) =
                 alloc s2 (ColumnTransformer
                   [(''num'', scaler, numerical_cols), (''cat'', encoder, categorical_cols)] None)
          in Inr (s3, X, y, preprocessor, categorical_cols, numerical_cols)))"

section \<open>The libraries\<close>

subsection \<open>Numeric kernels taken as parameters\<close>

text \<open>
  \<open>'g\<close> is the state of a pseudo-random generator. \<open>seed_rng n\<close> is the generator
  seeded with \<open>n\<close>; \<open>rng_permutation g n\<close> is the shuffle of \<open>0..<n\<close> it yields;
  \<open>fit_trees\<close>, \<open>predict_trees\<close> and \<open>tree_importances\<close> are the fitting, the prediction
  and the \<^verbatim>\<open>feature_importances_\<close> of a tree ensemble (over the rows of a matrix);
  \<open>argsort\<close> is numpy's \<^verbatim>\<open>argsort(kind='quicksort')\<close>; \<open>np_sqrt\<close> is the floating-point
  square root; \<open>repr_num\<close> prints a number.

  The metrics are computed in double precision: \<open>fsub\<close>, \<open>fsquare\<close> and \<open>fdiv\<close> are
  the subtraction, the square and the division of doubles, each rounding its result and
  yielding an infinity or NaN where the hardware does, and \<open>fsum\<close> is numpy's sum of an
  array of doubles.
\<close>

record ('g, 'm) lib =
  seed_rng :: "nat \<Rightarrow> 'g"
  rng_permutation :: "'g \<Rightarrow> nat \<Rightarrow> nat list"
  fit_trees :: "estimator_kind \<Rightarrow> nat \<Rightarrow> 'g \<Rightarrow> real list list \<Rightarrow> real list \<Rightarrow> 'm"
  predict_trees :: "'m \<Rightarrow> real list list \<Rightarrow> real list"
  tree_importances :: "'m \<Rightarrow> real list"
  argsort :: "real list \<Rightarrow> nat list"
  np_sqrt :: "real \<Rightarrow> real"
  fsub :: "pyfloat \<Rightarrow> pyfloat \<Rightarrow> pyfloat"
  fsquare :: "pyfloat \<Rightarrow> pyfloat"
  fdiv :: "pyfloat \<Rightarrow> pyfloat \<Rightarrow> pyfloat"
  fsum :: "pyfloat list \<Rightarrow> pyfloat"
  repr_num :: "real \<Rightarrow> string"

text \<open>
  \<^verbatim>\<open>check_random_state\<close>: an integer seed gives a generator of its own; \<^verbatim>\<open>None\<close> gives
  the process-wide generator, whose state \<open>ambient\<close> is not determined by the program's
  input.
\<close>

definition check_random_state :: "('g, 'm) lib \<Rightarrow> nat option \<Rightarrow> 'g \<Rightarrow> 'g" where
  "check_random_state L random_state ambient =
     (case random_state of None \<Rightarrow> ambient | Some n \<Rightarrow> seed_rng L n)"

subsection \<open>Helpers\<close>

fun mapM :: "('a \<Rightarrow> error + 'b) \<Rightarrow> 'a list \<Rightarrow> error + 'b list" where
  "mapM f [] = Inr []"
| "mapM f (x # xs) =
     (case f x of
        Inl e \<Rightarrow> Inl e
      | Inr y \<Rightarrow> (case mapM f xs of Inl e \<Rightarrow> Inl e | Inr ys \<Rightarrow> Inr (y # ys)))"

text \<open>A matrix is kept as its list of columns; \<open>None\<close> is NaN. The estimators read rows.\<close>

type_synonym matrix = "real option list list"

definition rows_of :: "'a list list \<Rightarrow> 'a list list" where
  "rows_of cols = (case cols of [] \<Rightarrow> [] | c # _ \<Rightarrow> map (\<lambda>i. map (\<lambda>col. col ! i) cols) [0..<length c])"

definition observed :: "real option list \<Rightarrow> real list" where
  "observed xs = concat (map (\<lambda>x. case x of None \<Rightarrow> [] | Some v \<Rightarrow> [v]) xs)"

fun numeric_cell :: "cell \<Rightarrow> error + real option" where
  "numeric_cell (Num x) = Inr (Some x)"
| "numeric_cell Missing = Inr None"
| "numeric_cell (Str _) = Inl ValueError"

fun target_value :: "cell \<Rightarrow> error + real" where
  "target_value (Num x) = Inr x"
| "target_value Missing = Inl ValueError"
| "target_value (Str _) = Inl ValueError"

text \<open>The columns a transformer is routed, by label; a missing label is a ValueError.\<close>

definition select_columns :: "dataframe \<Rightarrow> string list \<Rightarrow> error + column list" where
  "select_columns X labels =
     mapM (\<lambda>l. case getitem X l of Inl _ \<Rightarrow> Inl ValueError | Inr c \<Rightarrow> Inr c) labels"

subsection \<open>StandardScaler\<close>

definition scaler_fit_column :: "('g, 'm) lib \<Rightarrow> real option list \<Rightarrow> real option \<times> real option" where
  "scaler_fit_column L xs =
     (let vals = observed xs; n = length vals in
      if n = 0 then (None, None)
      else let mean = sum_list vals / real n;
               var = sum_list (map (\<lambda>x. (x - mean)\<^sup>2) vals) / real n
           in (Some mean, Some (if var = 0 then 1 else np_sqrt L var)))"

definition scaler_transform_column :: "real option \<times> real option \<Rightarrow> real option list \<Rightarrow> real option list" where
  "scaler_transform_column ms xs =
     map (\<lambda>x. case (x, fst ms, snd ms) of
                 (Some v, Some m, Some sd) \<Rightarrow> Some ((v - m) / sd)
               | _ \<Rightarrow> None) xs"

subsection \<open>OneHotEncoder\<close>

text \<open>
  \<^verbatim>\<open>categories_\<close> of one column: the distinct values, sorted, a missing value last. A
  column mixing strings and numbers cannot be sorted (TypeError).
\<close>

definition ohe_categories :: "cell list \<Rightarrow> error + cell list" where
  "ohe_categories vals =
     (let strs = concat (map (\<lambda>v. case v of Str s \<Rightarrow> [s] | _ \<Rightarrow> []) vals);
          nums = concat (map (\<lambda>v. case v of Num x \<Rightarrow> [x] | _ \<Rightarrow> []) vals)
      in if strs \<noteq> [] \<and> nums \<noteq> [] then Inl TypeError
         else Inr (map Str (sort (remdups strs)) @ map Num (sort (remdups nums))
                   @ (if Missing \<in> set vals then [Missing] else [])))"

text \<open>
  The encoder reads a column as an array. A column of dtype \<^verbatim>\<open>object\<close> or \<^verbatim>\<open>str\<close> is an
  array of Python objects, and so is a \<^verbatim>\<open>category\<close> column that holds strings; every
  other column is a numeric array.
\<close>

fun is_str :: "cell \<Rightarrow> bool" where
  "is_str (Str _) = True"
| "is_str _ = False"

definition object_array :: "column \<Rightarrow> bool" where
  "object_array c \<longleftrightarrow>
     col_dtype c = Object \<or> col_dtype c = StringDtype
     \<or> (col_dtype c = Category \<and> list_ex is_str (col_values c))"

text \<open>
  The indicator columns of one input column: one per category. Looking up the values
  of a numeric array among categories that are strings is a TypeError. A value that is
  not a category raises a ValueError under \<^verbatim>\<open>handle_unknown='error'\<close>; under \<^verbatim>\<open>'ignore'\<close>
  its row is zero in every indicator column.
\<close>

definition ohe_transform_column :: "handle_unknown \<Rightarrow> cell list \<Rightarrow> column \<Rightarrow> error + matrix" where
  "ohe_transform_column hu cats col =
     (if \<not> object_array col \<and> list_ex is_str cats then Inl TypeError
      else if hu = HU_error \<and> (\<exists>v \<in> set (col_values col). v \<notin> set cats) then Inl ValueError
      else Inr (map (\<lambda>c. map (\<lambda>v. Some (if v = c then 1 else 0)) (col_values col)) cats))"

fun ohe_transform :: "handle_unknown \<Rightarrow> cell list list \<Rightarrow> column list \<Rightarrow> error + matrix" where
  "ohe_transform hu [] [] = Inr []"
| "ohe_transform hu (cats # cs) (col # cols) =
     (case ohe_transform_column hu cats col of
        Inl e \<Rightarrow> Inl e
      | Inr m \<Rightarrow> (case ohe_transform hu cs cols of Inl e \<Rightarrow> Inl e | Inr ms \<Rightarrow> Inr (m @ ms)))"
| "ohe_transform hu _ _ = Inl ValueError"

text \<open>\<^verbatim>\<open>get_feature_names_out(input_features)\<close>: \<^verbatim>\<open><column>_<category>\<close>, column by column.\<close>

definition category_str :: "('g, 'm) lib \<Rightarrow> cell \<Rightarrow> string" where
  "category_str L c = (case c of Str s \<Rightarrow> s | Num x \<Rightarrow> repr_num L x | Missing \<Rightarrow> ''nan'')"

definition get_feature_names_out ::
  "('g, 'm) lib \<Rightarrow> 'm obj \<Rightarrow> string list \<Rightarrow> error + string list" where
  "get_feature_names_out L ohe input_features =
     (case ohe of
        OneHotEncoder _ None \<Rightarrow> Inl NotFittedError
      | OneHotEncoder _ (Some cats) \<Rightarrow>
          if length input_features \<noteq> length cats then Inl ValueError
          else Inr (concat (map (\<lambda>(col, cs). map (\<lambda>c. col @ ''_'' @ category_str L c) cs)
                                (zip input_features cats)))
      | _ \<Rightarrow> Inl TypeError)"

subsection \<open>Fitting and applying one transformer of a ColumnTransformer\<close>

text \<open>
  \<open>tf_fit_transform\<close> is \<^verbatim>\<open>clone(t).fit_transform(X[cols])\<close>: it returns the fitted clone
  and the output columns, and leaves the template as it was. Both transformers validate
  their input first: columns without a single row are a ValueError, in fitting and in
  transforming.
\<close>

definition no_rows :: "column list \<Rightarrow> bool" where
  "no_rows cols = list_ex (\<lambda>c. col_values c = []) cols"

definition tf_fit_transform ::
  "('g, 'm) lib \<Rightarrow> 'm obj \<Rightarrow> column list \<Rightarrow> error + ('m obj \<times> matrix)" where
  "tf_fit_transform L t cols =
     (if no_rows cols then Inl ValueError else
      case t of
        StandardScaler _ \<Rightarrow>
          (case mapM (\<lambda>c. mapM numeric_cell (col_values c)) cols of
             Inl e \<Rightarrow> Inl e
           | Inr xs \<Rightarrow>
               let params = map (scaler_fit_column L) xs
               in Inr (StandardScaler (Some params),
                       map (\<lambda>(p, x). scaler_transform_column p x) (zip params xs)))
      | OneHotEncoder hu _ \<Rightarrow>
          (case mapM (\<lambda>c. ohe_categories (col_values c)) cols of
             Inl e \<Rightarrow> Inl e
           | Inr cats \<Rightarrow>
               (case ohe_transform hu cats cols of
                  Inl e \<Rightarrow> Inl e
                | Inr m \<Rightarrow> Inr (OneHotEncoder hu (Some cats), m)))
      | _ \<Rightarrow> Inl TypeError)"

definition tf_transform :: "'m obj \<Rightarrow> column list \<Rightarrow> error + matrix" where
  "tf_transform t cols =
     (case t of
        StandardScaler None \<Rightarrow> Inl NotFittedError
      | StandardScaler (Some params) \<Rightarrow>
          if no_rows cols then Inl ValueError else
          (case mapM (\<lambda>c. mapM numeric_cell (col_values c)) cols of
             Inl e \<Rightarrow> Inl e
           | Inr xs \<Rightarrow>
               if length xs \<noteq> length params then Inl ValueError
               else Inr (map (\<lambda>(p, x). scaler_transform_column p x) (zip params xs)))
      | OneHotEncoder hu None \<Rightarrow> Inl NotFittedError
      | OneHotEncoder hu (Some cats) \<Rightarrow>
          if no_rows cols then Inl ValueError else ohe_transform hu cats cols
      | _ \<Rightarrow> Inl TypeError)"

subsection \<open>ColumnTransformer\<close>

text \<open>
  \<^verbatim>\<open>fit_transform\<close> fits a fresh clone of every transformer whose column list is not
  empty, records the clones in \<^verbatim>\<open>transformers_\<close> (a transformer with no columns is
  recorded as it is, unfitted) and stacks the outputs side by side. Columns routed to no
  transformer are dropped (\<^verbatim>\<open>remainder='drop'\<close>, the default). The object itself is
  updated in place: whatever \<^verbatim>\<open>transformers_\<close> held before is replaced.
\<close>

fun ct_fit_transformers ::
  "('g, 'm) lib \<Rightarrow> 'm store \<Rightarrow> dataframe \<Rightarrow> (string \<times> addr \<times> string list) list \<Rightarrow>
     error + ('m store \<times> (string \<times> addr \<times> string list) list \<times> matrix)" where
  "ct_fit_transformers L s X [] = Inr (s, [], [])"
| "ct_fit_transformers L s X ((name, t, cols) # rest) =
     (if cols = [] then
        (case ct_fit_transformers L s X rest of
           Inl e \<Rightarrow> Inl e
         | Inr (s', fitted, out) \<Rightarrow> Inr (s', (name, t, cols) # fitted, out))
      else
        (case objs s t of
           None \<Rightarrow> Inl TypeError
         | Some template \<Rightarrow>
        (case select_columns X cols of
           Inl e \<Rightarrow> Inl e
         | Inr sel \<Rightarrow>
        (case tf_fit_transform L template sel of
           Inl e \<Rightarrow> Inl e
         | Inr (clone, m) \<Rightarrow>
             let (a, s1) = alloc s clone in
             (case ct_fit_transformers L s1 X rest of
                Inl e \<Rightarrow> Inl e
              | Inr (s', fitted, out) \<Rightarrow> Inr (s', (name, a, cols) # fitted, m @ out))))))"

definition ct_fit_transform ::
  "('g, 'm) lib \<Rightarrow> 'm store \<Rightarrow> addr \<Rightarrow> dataframe \<Rightarrow> error + ('m store \<times> matrix)" where
  "ct_fit_transform L s p X =
     (case objs s p of
        Some (ColumnTransformer transformers _) \<Rightarrow>
          (case ct_fit_transformers L s X transformers of
             Inl e \<Rightarrow> Inl e
           | Inr (s', fitted, out) \<Rightarrow>
               Inr (put s' p (ColumnTransformer transformers (Some fitted)), out))
      | _ \<Rightarrow> Inl TypeError)"

fun ct_apply_transformers ::
  "'m store \<Rightarrow> dataframe \<Rightarrow> (string \<times> addr \<times> string list) list \<Rightarrow> error + matrix" where
  "ct_apply_transformers s X [] = Inr []"
| "ct_apply_transformers s X ((name, t, cols) # rest) =
     (if cols = [] then ct_apply_transformers s X rest
      else
        (case objs s t of
           None \<Rightarrow> Inl TypeError
         | Some tf \<Rightarrow>
        (case select_columns X cols of
           Inl e \<Rightarrow> Inl e
         | Inr sel \<Rightarrow>
        (case tf_transform tf sel of
           Inl e \<Rightarrow> Inl e
         | Inr m \<Rightarrow>
        (case ct_apply_transformers s X rest of
           Inl e \<Rightarrow> Inl e
         | Inr out \<Rightarrow> Inr (m @ out))))))"

definition ct_transform :: "'m store \<Rightarrow> addr \<Rightarrow> dataframe \<Rightarrow> error + matrix" where
  "ct_transform s p X =
     (case objs s p of
        Some (ColumnTransformer _ None) \<Rightarrow> Inl NotFittedError
      | Some (ColumnTransformer _ (Some fitted)) \<Rightarrow> ct_apply_transformers s X fitted
      | _ \<Rightarrow> Inl TypeError)"

text \<open>\<^verbatim>\<open>preprocessor.named_transformers_[name]\<close>: the fitted transformer of that name.\<close>

definition named_transformers :: "'m store \<Rightarrow> addr \<Rightarrow> string \<Rightarrow> error + addr" where
  "named_transformers s p name =
     (case objs s p of
        Some (ColumnTransformer _ None) \<Rightarrow> Inl NotFittedError
      | Some (ColumnTransformer _ (Some fitted)) \<Rightarrow>
          (case filter (\<lambda>(n, _, _). n = name) fitted of
             [] \<Rightarrow> Inl KeyError
           | (_, a, _) # _ \<Rightarrow> Inr a)
      | _ \<Rightarrow> Inl TypeError)"

subsection \<open>SimpleImputer(strategy='median')\<close>

definition median :: "real list \<Rightarrow> real" where
  "median xs =
     (let ys = sort xs; n = length ys in
      if odd n then ys ! (n div 2) else (ys ! (n div 2 - 1) + ys ! (n div 2)) / 2)"

text \<open>
  \<^verbatim>\<open>statistics_\<close>: the median of the observed values of each column, NaN for a column with
  none. Transforming fills the missing entries of a column with its median and drops
  the columns whose statistic is NaN (\<^verbatim>\<open>keep_empty_features=False\<close>, the default).
\<close>

definition imputer_apply :: "real option list \<Rightarrow> matrix \<Rightarrow> real list list" where
  "imputer_apply stats m =
     concat (map (\<lambda>(st, c). case st of
                               None \<Rightarrow> []
                             | Some md \<Rightarrow> [map (\<lambda>x. case x of None \<Rightarrow> md | Some v \<Rightarrow> v) c])
                 (zip stats m))"

definition imputer_fit_transform :: "'m obj \<Rightarrow> matrix \<Rightarrow> error + ('m obj \<times> real list list)" where
  "imputer_fit_transform imp m =
     (case imp of
        SimpleImputer _ \<Rightarrow>
          if m = [] then Inl ValueError
          else let stats = map (\<lambda>c. let vals = observed c in
                                    if vals = [] then None else Some (median vals)) m
               in Inr (SimpleImputer (Some stats), imputer_apply stats m)
      | _ \<Rightarrow> Inl TypeError)"

definition imputer_transform :: "'m obj \<Rightarrow> matrix \<Rightarrow> error + real list list" where
  "imputer_transform imp m =
     (case imp of
        SimpleImputer None \<Rightarrow> Inl NotFittedError
      | SimpleImputer (Some stats) \<Rightarrow>
          if length m \<noteq> length stats then Inl ValueError else Inr (imputer_apply stats m)
      | _ \<Rightarrow> Inl TypeError)"

subsection \<open>The tree-ensemble regressors\<close>

text \<open>
  Fitting needs at least one feature column and a numeric target without missing
  values; the fitted estimator remembers its number of input features.
\<close>

definition regressor_fit ::
  "('g, 'm) lib \<Rightarrow> 'g \<Rightarrow> 'm obj \<Rightarrow> real list list \<Rightarrow> cell list \<Rightarrow> error + 'm obj" where
  "regressor_fit L ambient reg m y =
     (case reg of
        Regressor kind n_estimators random_state _ \<Rightarrow>
          if m = [] then Inl ValueError
          else (case mapM target_value y of
                  Inl e \<Rightarrow> Inl e
                | Inr ys \<Rightarrow>
                    if length (rows_of m) \<noteq> length ys then Inl ValueError
                    else Inr (Regressor kind n_estimators random_state
                               (Some (length m,
                                      fit_trees L kind n_estimators
                                        (check_random_state L random_state ambient) (rows_of m) ys))))
      | _ \<Rightarrow> Inl TypeError)"

definition regressor_predict :: "('g, 'm) lib \<Rightarrow> 'm obj \<Rightarrow> real list list \<Rightarrow> error + real list" where
  "regressor_predict L reg m =
     (case reg of
        Regressor _ _ _ None \<Rightarrow> Inl NotFittedError
      | Regressor _ _ _ (Some (n_features, fitted)) \<Rightarrow>
          if length m \<noteq> n_features then Inl ValueError
          else Inr (predict_trees L fitted (rows_of m))
      | _ \<Rightarrow> Inl TypeError)"

subsection \<open>Pipeline\<close>

text \<open>
  A pipeline of the program has the three steps \<^verbatim>\<open>preprocessor\<close>, \<^verbatim>\<open>imputer\<close> and
  \<^verbatim>\<open>model\<close>. It holds references: \<^verbatim>\<open>Pipeline\<close> does not copy its steps, and \<^verbatim>\<open>fit\<close> fits
  each step object in place.
\<close>

record pipeline =
  step_preprocessor :: addr
  step_imputer :: addr
  step_model :: addr

definition pipeline_fit ::
  "('g, 'm) lib \<Rightarrow> 'g \<Rightarrow> 'm store \<Rightarrow> pipeline \<Rightarrow> dataframe \<Rightarrow> column \<Rightarrow> error + 'm store" where
  "pipeline_fit L ambient s pl X y =
     (case ct_fit_transform L s (step_preprocessor pl) X of
        Inl e \<Rightarrow> Inl e
      | Inr (s1, Xt) \<Rightarrow>
     (case objs s1 (step_imputer pl) of
        None \<Rightarrow> Inl TypeError
      | Some imp \<Rightarrow>
     (case imputer_fit_transform imp Xt of
        Inl e \<Rightarrow> Inl e
      | Inr (imp', Xi) \<Rightarrow>
          let s2 = put s1 (step_imputer pl) imp' in
     (case objs s2 (step_model pl) of
        None \<Rightarrow> Inl TypeError
      | Some reg \<Rightarrow>
     (case regressor_fit L ambient reg Xi (col_values y) of
        Inl e \<Rightarrow> Inl e
      | Inr reg' \<Rightarrow> Inr (put s2 (step_model pl) reg'))))))"

definition pipeline_predict ::
  "('g, 'm) lib \<Rightarrow> 'm store \<Rightarrow> pipeline \<Rightarrow> dataframe \<Rightarrow> error + real list" where
  "pipeline_predict L s pl X =
     (case ct_transform s (step_preprocessor pl) X of
        Inl e \<Rightarrow> Inl e
      | Inr Xt \<Rightarrow>
     (case objs s (step_imputer pl) of
        None \<Rightarrow> Inl TypeError
      | Some imp \<Rightarrow>
     (case imputer_transform imp Xt of
        Inl e \<Rightarrow> Inl e
      | Inr Xi \<Rightarrow>
     (case objs s (step_model pl) of
        None \<Rightarrow> Inl TypeError
      | Some reg \<Rightarrow> regressor_predict L reg Xi))))"

subsection \<open>train\_test\_split\<close>

text \<open>
  One shuffled split: \<open>n_test = \<lceil>test_size * n\<rceil>\<close> rows are held out, the rest is the
  training set; an empty table or an empty training set is a ValueError. The first
  \<open>n_test\<close> indices of the shuffle are the test rows, the following ones the training
  rows.
\<close>

definition take_rows :: "dataframe \<Rightarrow> nat list \<Rightarrow> dataframe" where
  "take_rows X idx = map (\<lambda>c. c\<lparr>col_values := map (\<lambda>i. col_values c ! i) idx\<rparr>) X"

definition train_test_split ::
  "('g, 'm) lib \<Rightarrow> 'g \<Rightarrow> dataframe \<Rightarrow> column \<Rightarrow> real \<Rightarrow> nat option \<Rightarrow>
     error + (dataframe \<times> dataframe \<times> column \<times> column)" where
  "train_test_split L ambient X y test_size random_state =
     (let n = n_rows X in
      if length (col_values y) \<noteq> n \<or> n = 0 then Inl ValueError
      else let n_test = nat \<lceil>test_size * real n\<rceil>; n_train = n - n_test in
        if n_train = 0 then Inl ValueError
        else let perm = rng_permutation L (check_random_state L random_state ambient) n;
                 ind_test = take n_test perm;
                 ind_train = take n_train (drop n_test perm)
             in Inr (take_rows X ind_train, take_rows X ind_test,
                     y\<lparr>col_values := map (\<lambda>i. col_values y ! i) ind_train\<rparr>,
                     y\<lparr>col_values := map (\<lambda>i. col_values y ! i) ind_test\<rparr>))"

subsection \<open>Metrics\<close>

text \<open>
  The absolute value and the square root of a double, and \<^verbatim>\<open>np.average\<close> of an array of
  doubles.
\<close>

fun float_abs :: "pyfloat \<Rightarrow> pyfloat" where
  "float_abs (Fin x) = Fin \<bar>x\<bar>"
| "float_abs PosInf = PosInf"
| "float_abs NegInf = PosInf"
| "float_abs NaN = NaN"

fun float_sqrt :: "('g, 'm) lib \<Rightarrow> pyfloat \<Rightarrow> pyfloat" where
  "float_sqrt L (Fin x) = (if x < 0 then NaN else Fin (np_sqrt L x))"
| "float_sqrt L PosInf = PosInf"
| "float_sqrt L NegInf = NaN"
| "float_sqrt L NaN = NaN"

definition np_average :: "('g, 'm) lib \<Rightarrow> pyfloat list \<Rightarrow> pyfloat" where
  "np_average L xs = fdiv L (fsum L xs) (Fin (real (length xs)))"

text \<open>
  \<^verbatim>\<open>mean_absolute_error\<close> is \<^verbatim>\<open>np.average(np.abs(y_pred - y_true))\<close> and
  \<^verbatim>\<open>mean_squared_error\<close> is \<^verbatim>\<open>np.average((y_true - y_pred) ** 2)\<close>, on targets without
  missing values and as many predictions.
\<close>

definition mean_absolute_error :: "('g, 'm) lib \<Rightarrow> cell list \<Rightarrow> real list \<Rightarrow> error + pyfloat" where
  "mean_absolute_error L y_true y_pred =
     (case mapM target_value y_true of
        Inl e \<Rightarrow> Inl e
      | Inr ys \<Rightarrow>
          if length ys \<noteq> length y_pred \<or> ys = [] then Inl ValueError
          else Inr (np_average L (map (\<lambda>(a, b). float_abs (fsub L (Fin b) (Fin a))) (zip ys y_pred))))"

definition mean_squared_error :: "('g, 'm) lib \<Rightarrow> cell list \<Rightarrow> real list \<Rightarrow> error + pyfloat" where
  "mean_squared_error L y_true y_pred =
     (case mapM target_value y_true of
        Inl e \<Rightarrow> Inl e
      | Inr ys \<Rightarrow>
          if length ys \<noteq> length y_pred \<or> ys = [] then Inl ValueError
          else Inr (np_average L (map (\<lambda>(a, b). fsquare L (fsub L (Fin a) (Fin b))) (zip ys y_pred))))"

text \<open>
  The two sums of squares of \<^verbatim>\<open>r2_score\<close>: of the residuals, and of the deviations of
  the target from its computed mean.
\<close>

definition residual_ss :: "('g, 'm) lib \<Rightarrow> real list \<Rightarrow> real list \<Rightarrow> pyfloat" where
  "residual_ss L ys y_pred =
     fsum L (map (\<lambda>(a, b). fsquare L (fsub L (Fin a) (Fin b))) (zip ys y_pred))"

definition total_ss :: "('g, 'm) lib \<Rightarrow> real list \<Rightarrow> pyfloat" where
  "total_ss L ys =
     (let mean = np_average L (map Fin ys)
      in fsum L (map (\<lambda>a. fsquare L (fsub L (Fin a) mean)) ys))"

text \<open>
  \<^verbatim>\<open>r2_score\<close>: with fewer than two samples the score is NaN (a warning, no exception).
  Otherwise it is \<open>1 - numerator / denominator\<close> when both sums are different from zero,
  0 when only the numerator is, and 1 when the numerator is zero; nothing is raised.
  With a constant \<^verbatim>\<open>y_true\<close> the denominator is zero only if the computed mean is the
  constant itself, which rounding does not guarantee.
\<close>

definition r2_score :: "('g, 'm) lib \<Rightarrow> cell list \<Rightarrow> real list \<Rightarrow> error + pyfloat" where
  "r2_score L y_true y_pred =
     (case mapM target_value y_true of
        Inl e \<Rightarrow> Inl e
      | Inr ys \<Rightarrow>
          if length ys \<noteq> length y_pred \<or> ys = [] then Inl ValueError
          else if length y_pred < 2 then Inr NaN
          else let numerator = residual_ss L ys y_pred;
                   denominator = total_ss L ys
               in if denominator \<noteq> Fin 0 \<and> numerator \<noteq> Fin 0
                  then Inr (fsub L (Fin 1) (fdiv L numerator denominator))
                  else if numerator \<noteq> Fin 0 then Inr (Fin 0)
                  else Inr (Fin 1))"

section \<open>train\_model\<close>

record eval_result =
  mae :: pyfloat
  rmse :: pyfloat
  r2 :: pyfloat
  model :: pipeline

record best =
  best_name :: string
  best_pipeline :: pipeline

text \<open>\<^verbatim>\<open>results[name] = value\<close> on a dict, which keeps its keys in insertion order.\<close>

fun dict_set :: "('k \<times> 'v) list \<Rightarrow> 'k \<Rightarrow> 'v \<Rightarrow> ('k \<times> 'v) list" where
  "dict_set [] k v = [(k, v)]"
| "dict_set ((k', v') # kvs) k v = (if k' = k then (k, v) # kvs else (k', v') # dict_set kvs k v)"

text \<open>Lines 74--93: fit one candidate on the training split and score it on the test split.\<close>

definition evaluate_candidate ::
  "('g, 'm) lib \<Rightarrow> 'g \<Rightarrow> 'm store \<Rightarrow> pipeline \<Rightarrow> dataframe \<Rightarrow> column \<Rightarrow> dataframe \<Rightarrow> column \<Rightarrow>
     error + ('m store \<times> eval_result)" where
  "evaluate_candidate L ambient s pl X_train y_train X_test y_test =
     (case pipeline_fit L ambient s pl X_train y_train of
        Inl e \<Rightarrow> Inl e
      | Inr s' \<Rightarrow>
     (case pipeline_predict L s' pl X_test of
        Inl e \<Rightarrow> Inl e
      | Inr y_pred \<Rightarrow>
     (case mean_absolute_error L (col_values y_test) y_pred of
        Inl e \<Rightarrow> Inl e
      | Inr mae_v \<Rightarrow>
     (case mean_squared_error L (col_values y_test) y_pred of
        Inl e \<Rightarrow> Inl e
      | Inr mse_v \<Rightarrow>
     (case r2_score L (col_values y_test) y_pred of
        Inl e \<Rightarrow> Inl e
      | Inr r2_v \<Rightarrow>
          Inr (s', \<lparr>mae = mae_v, rmse = float_sqrt L mse_v, r2 = r2_v, model = pl\<rparr>))))))"

text \<open>
  Lines 95--98: the candidate replaces the current best when its score is strictly
  greater.
\<close>

definition update_best ::
  "best option \<times> pyfloat \<Rightarrow> string \<Rightarrow> pipeline \<Rightarrow> pyfloat \<Rightarrow> best option \<times> pyfloat" where
  "update_best cur name pl r2_v =
     (if float_gt r2_v (snd cur) then (Some \<lparr>best_name = name, best_pipeline = pl\<rparr>, r2_v)
      else cur)"

text \<open>
  Lines 69--98: the loop over \<^verbatim>\<open>models.items()\<close>, in the order the candidates are
  written in the dict literal. The loop state is the store, \<^verbatim>\<open>results\<close>,
  \<^verbatim>\<open>best_model\<close> and \<^verbatim>\<open>best_score\<close>.
\<close>

fun train_loop ::
  "('g, 'm) lib \<Rightarrow> 'g \<Rightarrow> dataframe \<Rightarrow> column \<Rightarrow> dataframe \<Rightarrow> column \<Rightarrow> (string \<times> pipeline) list \<Rightarrow>
     'm store \<times> (string \<times> eval_result) list \<times> best option \<times> pyfloat \<Rightarrow>
     error + ('m store \<times> (string \<times> eval_result) list \<times> best option \<times> pyfloat)" where
  "train_loop L ambient X_train y_train X_test y_test [] st = Inr st"
| "train_loop L ambient X_train y_train X_test y_test ((name, pl) # rest)
       (s, results, best_model, best_score) =
     (case evaluate_candidate L ambient s pl X_train y_train X_test y_test of
        Inl e \<Rightarrow> Inl e
      | Inr (s', res) \<Rightarrow>
          train_loop L ambient X_train y_train X_test y_test rest
            (s', dict_set results name res,
             update_best (best_model, best_score) name pl (r2 res)))"

text \<open>
  Lines 45--100. Both pipelines are built over the one \<^verbatim>\<open>preprocessor\<close> object that
  was passed in; each has an imputer and an estimator of its own.
\<close>

definition train_model ::
  "('g, 'm) lib \<Rightarrow> 'g \<Rightarrow> 'm store \<Rightarrow> dataframe \<Rightarrow> column \<Rightarrow> addr \<Rightarrow>
     error + ('m store \<times> best option \<times> dataframe \<times> column \<times> (string \<times> eval_result) list)" where
  "train_model L ambient s X y preprocessor =
     (case train_test_split L ambient X y (1 / 5) (Some 42) of
        Inl e \<Rightarrow> Inl e
      | Inr (X_train, X_test, y_train, y_test) \<Rightarrow>
          let (imputer1, s1) = alloc s (SimpleImputer None);
              (model1, s2) = alloc s1 (Regressor RandomForestRegressor 100 (Some 42) None);
              rf_pipeline = \<lparr>step_preprocessor = preprocessor, step_imputer = imputer1,
                             step_model = model1\<rparr>;
              (imputer2, s3) = alloc s2 (SimpleImputer None);
              (model2, s4) = alloc s3 (Regressor GradientBoostingRegressor 100 (Some 42) None);
              gb_pipeline = \<lparr>step_preprocessor = preprocessor, step_imputer = imputer2,
                             step_model = model2\<rparr>;
              models = [(''Random Forest'', rf_pipeline), (''Gradient Boosting'', gb_pipeline)]
          in (case train_loop L ambient X_train y_train X_test y_test models (s4, [], None, NegInf) of
                Inl e \<Rightarrow> Inl e
              | Inr (s', results, best_model, best_score) \<Rightarrow>
                  Inr (s', best_model, X_test, y_test, results)))"

section \<open>feature\_importance\_analysis\<close>

text \<open>
  \<^verbatim>\<open>pd.DataFrame({'feature': names, 'importance': values})\<close>: one row per position;
  columns of different lengths are a ValueError.
\<close>

definition DataFrame :: "string list \<Rightarrow> real list \<Rightarrow> error + (string \<times> real) list" where
  "DataFrame feature importance =
     (if length feature \<noteq> length importance then Inl ValueError
      else Inr (zip feature importance))"

text \<open>
  \<^verbatim>\<open>sort_values('importance', ascending=False)\<close> with the default \<^verbatim>\<open>kind='quicksort'\<close>:
  the values are reversed, argsorted in ascending order by the library's quicksort, and
  the resulting order is reversed again.
\<close>

definition sort_values_desc :: "('g, 'm) lib \<Rightarrow> (string \<times> real) list \<Rightarrow> (string \<times> real) list" where
  "sort_values_desc L rows =
     (let idx = rev [0..<length rows];
          items = rev (map snd rows);
          indexer = rev (map (\<lambda>k. idx ! k) (argsort L items))
      in map (\<lambda>i. rows ! i) indexer)"

text \<open>
  Lines 102--136. The result is \<open>None\<close> when the estimator has no
  \<^verbatim>\<open>feature_importances_\<close>; that is also the case of an estimator that was not fitted,
  where reading the attribute fails and \<^verbatim>\<open>hasattr\<close> answers \<^verbatim>\<open>False\<close>. The encoder is read
  from the \<^verbatim>\<open>preprocessor\<close> argument, not from the pipeline of \<^verbatim>\<open>model\<close>; the argument
  \<^verbatim>\<open>X\<close> is not used. Plotting is left out.
\<close>

definition feature_importance_analysis ::
  "('g, 'm) lib \<Rightarrow> 'm store \<Rightarrow> best option \<Rightarrow> dataframe \<Rightarrow> string list \<Rightarrow> string list \<Rightarrow> addr \<Rightarrow>
     error + (string \<times> real) list option" where
  "feature_importance_analysis L s model_arg X categorical_cols numerical_cols preprocessor =
     (case model_arg of
        None \<Rightarrow> Inl TypeError
      | Some b \<Rightarrow>
     (case objs s (step_model (best_pipeline b)) of
        None \<Rightarrow> Inl TypeError
      | Some (Regressor _ _ _ None) \<Rightarrow> Inr None
      | Some (Regressor _ _ _ (Some (_, fitted))) \<Rightarrow>
          (case named_transformers s preprocessor ''cat'' of
             Inl e \<Rightarrow> Inl e
           | Inr a \<Rightarrow>
          (case objs s a of
             None \<Rightarrow> Inl TypeError
           | Some ohe \<Rightarrow>
          (case get_feature_names_out L ohe categorical_cols of
             Inl e \<Rightarrow> Inl e
           | Inr cat_features \<Rightarrow>
               let feature_names = numerical_cols @ cat_features;
                   importances = tree_importances L fitted
               in (case DataFrame feature_names importances of
                     Inl e \<Rightarrow> Inl e
                   | Inr importance_df \<Rightarrow> Inr (Some (sort_values_desc L importance_df))))))
      | Some _ \<Rightarrow> Inr None))"

section \<open>main\<close>

text \<open>
  Lines 156--166, from the loaded table to the importance table. Reading
  \<^verbatim>\<open>best_model['name']\<close> when no candidate was selected is a TypeError. Loading, printing
  and saving are left out.
\<close>

definition main ::
  "('g, 'm) lib \<Rightarrow> 'g \<Rightarrow> 'm store \<Rightarrow> dataframe \<Rightarrow>
     error + ('m store \<times> best \<times> (string \<times> eval_result) list \<times> (string \<times> real) list option)" where
  "main L ambient s df =
     (case preprocess_data s df of
        Inl e \<Rightarrow> Inl e
      | Inr (s1, X, y, preprocessor, categorical_cols, numerical_cols) \<Rightarrow>
     (case train_model L ambient s1 X y preprocessor of
        Inl e \<Rightarrow> Inl e
      | Inr (s2, best_model, X_test, y_test, results) \<Rightarrow>
     (case best_model of
        None \<Rightarrow> Inl TypeError
      | Some b \<Rightarrow>
     (case feature_importance_analysis L s2 best_model X categorical_cols numerical_cols preprocessor of
        Inl e \<Rightarrow> Inl e
      | Inr importance_df \<Rightarrow> Inr (s2, b, results, importance_df)))))"

section \<open>Auxiliary notions for the properties\<close>

text \<open>
  \<open>scan_best\<close> is the sequence of \<open>update_best\<close> steps the loop performs on a list of
  evaluated candidates; \<open>is_first_max cs i\<close> says that position \<open>i\<close> holds a maximal
  score of \<open>cs\<close> and every earlier position a strictly smaller one.
\<close>

definition scan_best ::
  "best option \<times> pyfloat \<Rightarrow> ((string \<times> pipeline) \<times> eval_result) list \<Rightarrow> best option \<times> pyfloat" where
  "scan_best cur cs = foldl (\<lambda>cur ((name, pl), res). update_best cur name pl (r2 res)) cur cs"

definition is_first_max :: "((string \<times> pipeline) \<times> eval_result) list \<Rightarrow> nat \<Rightarrow> bool" where
  "is_first_max cs i \<longleftrightarrow>
     i < length cs
     \<and> (\<forall>j < length cs. float_le (r2 (snd (cs ! j))) (r2 (snd (cs ! i))))
     \<and> (\<forall>j < i. float_gt (r2 (snd (cs ! i))) (r2 (snd (cs ! j))))"

text \<open>
  What the library promises of \<^verbatim>\<open>argsort\<close>, whatever its \<^verbatim>\<open>kind\<close>: the result is a
  permutation of the positions that puts the values in ascending order. The default
  kind, quicksort, promises no more; only the kinds \<^verbatim>\<open>'stable'\<close> and \<^verbatim>\<open>'mergesort'\<close>
  keep equal values in their order.
\<close>

definition argsort_ok :: "(real list \<Rightarrow> nat list) \<Rightarrow> bool" where
  "argsort_ok f \<longleftrightarrow>
     (\<forall>xs. mset (f xs) = mset [0..<length xs] \<and> sorted (map (\<lambda>i. xs ! i) (f xs)))"

text \<open>
  A store is \<open>all_seeded\<close> when none of its estimators was constructed without a
  \<^verbatim>\<open>random_state\<close>, that is, when none would draw from the process-wide generator.
\<close>

definition all_seeded :: "'m store \<Rightarrow> bool" where
  "all_seeded s \<longleftrightarrow> (\<forall>a kind n f. objs s a \<noteq> Some (Regressor kind n None f))"

text \<open>
  The store and the two candidates of lines 51--67, for a store \<open>s\<close> and a preprocessor
  \<open>p\<close>: \<open>train_model\<close> runs its loop over \<open>candidates s p\<close> from \<open>candidate_store s\<close>
  (lemma \<open>train_model_alt\<close> below).
\<close>

definition candidate_store :: "'m store \<Rightarrow> 'm store" where
  "candidate_store s =
     snd (alloc (snd (alloc (snd (alloc (snd (alloc s (SimpleImputer None)))
        (Regressor RandomForestRegressor 100 (Some 42) None))) (SimpleImputer None)))
        (Regressor GradientBoostingRegressor 100 (Some 42) None))"

definition candidates :: "'m store \<Rightarrow> addr \<Rightarrow> (string \<times> pipeline) list" where
  "candidates s p =
     [(''Random Forest'',
       \<lparr>step_preprocessor = p, step_imputer = next_addr s, step_model = Suc (next_addr s)\<rparr>),
      (''Gradient Boosting'',
       \<lparr>step_preprocessor = p, step_imputer = Suc (Suc (next_addr s)),
          step_model = Suc (Suc (Suc (next_addr s)))\<rparr>)]"

text \<open>
  Notions for the state a fit leaves behind. \<open>is_transformer\<close> holds of scalers and
  encoders; \<open>numeric_columns\<close> of columns whose cells are numbers or missing;
  \<open>indicators cs col\<close> are the indicator columns of the column \<open>col\<close> for the
  categories \<open>cs\<close>, as an encoder that ignores unknown values produces them.
  \<open>fitted_entry L s s1 X t e\<close> relates a transformer \<open>t\<close> of a
  \<^verbatim>\<open>ColumnTransformer\<close> to its entry in \<^verbatim>\<open>transformers_\<close> and its output \<open>e\<close> after a
  fit on \<open>X\<close> that led from store \<open>s\<close> to store \<open>s1\<close>.
\<close>

definition is_transformer :: "'m obj \<Rightarrow> bool" where
  "is_transformer ob = (case ob of StandardScaler _ \<Rightarrow> True | OneHotEncoder _ _ \<Rightarrow> True | _ \<Rightarrow> False)"



definition fitted_entry ::
  "('g, 'm) lib \<Rightarrow> 'm store \<Rightarrow> 'm store \<Rightarrow> dataframe \<Rightarrow>
     string \<times> addr \<times> string list \<Rightarrow> (string \<times> addr \<times> string list) \<times> matrix \<Rightarrow> bool" where
  "fitted_entry L s s1 X t e =
     (case (t, e) of ((name, tmpl, cols), ((name', a, cols'), m)) \<Rightarrow>
        name' = name \<and> cols' = cols
        \<and> (if cols = [] then a = tmpl \<and> m = []
            else next_addr s \<le> a \<and> a < next_addr s1
               \<and> (\<exists>template sel clone.
                     objs s tmpl = Some template \<and> select_columns X cols = Inr sel
                   \<and> tf_fit_transform L template sel = Inr (clone, m)
                   \<and> objs s1 a = Some clone)))"

section \<open>Example inputs\<close>

text \<open>
  A small instance of the library parameters, used to run the program on concrete
  tables: the ``shuffle'' is the identity, a fitted ensemble is a constant predictor
  (the mean of the training target for the forest, its median for the boosting
  regressor) with uniform importances, the argsort is an insertion sort, the square
  root is replaced by its upper bound \<open>(x + 1) / 2\<close>, and the arithmetic of doubles is
  the exact one on finite numbers (as it is on the small integers and halves of the
  examples), a division by zero or an operand that is not finite giving NaN.
\<close>

definition exact1 :: "(real \<Rightarrow> real) \<Rightarrow> pyfloat \<Rightarrow> pyfloat" where
  "exact1 f a = (case a of Fin x \<Rightarrow> Fin (f x) | _ \<Rightarrow> NaN)"

definition exact2 :: "(real \<Rightarrow> real \<Rightarrow> real) \<Rightarrow> pyfloat \<Rightarrow> pyfloat \<Rightarrow> pyfloat" where
  "exact2 f a b = (case (a, b) of (Fin x, Fin y) \<Rightarrow> Fin (f x y) | _ \<Rightarrow> NaN)"

definition exact_div :: "pyfloat \<Rightarrow> pyfloat \<Rightarrow> pyfloat" where
  "exact_div a b = (case (a, b) of (Fin x, Fin y) \<Rightarrow> if y = 0 then NaN else Fin (x / y) | _ \<Rightarrow> NaN)"

definition ex_lib :: "(nat, nat \<times> real) lib" where
  "ex_lib = \<lparr>
     seed_rng = (\<lambda>n. n),
     rng_permutation = (\<lambda>g n. [0..<n]),
     fit_trees = (\<lambda>kind n_estimators g rows ys.
        (case rows of [] \<Rightarrow> 0 | r # _ \<Rightarrow> length r,
         case kind of RandomForestRegressor \<Rightarrow> sum_list ys / real (length ys)
                    | GradientBoostingRegressor \<Rightarrow> median ys)),
     predict_trees = (\<lambda>m rows. map (\<lambda>_. snd m) rows),
     tree_importances = (\<lambda>m. replicate (fst m) (1 / real (fst m))),
     argsort = (\<lambda>xs. sort_key (\<lambda>i. xs ! i) [0..<length xs]),
     np_sqrt = (\<lambda>x. (x + 1) / 2),
     fsub = exact2 (\<lambda>x y. x - y),
     fsquare = exact1 (\<lambda>x. x\<^sup>2),
     fdiv = exact_div,
     fsum = (\<lambda>xs. foldr (exact2 (\<lambda>x y. x + y)) xs (Fin 0)),
     repr_num = (\<lambda>x. ''num'')\<rparr>"

text \<open>Six households: a text column, a boolean column, an integer column, the target.\<close>

definition ex_table :: dataframe where
  "ex_table =
     [\<lparr>col_name = ''Diet'', col_dtype = Object,
        col_values = [Str ''vegan'', Str ''omnivore'', Str ''vegan'', Str ''omnivore'',
                      Str ''vegan'', Str ''omnivore'']\<rparr>,
      \<lparr>col_name = ''Recycles'', col_dtype = Bool,
        col_values = [Num 1, Num 0, Num 1, Num 0, Num 1, Num 1]\<rparr>,
      \<lparr>col_name = ''CarbonEmission'', col_dtype = Int64,
        col_values = [Num 1, Num 3, Num 2, Num 6, Num 4, Num 8]\<rparr>]"

text \<open>The first three households of that table.\<close>

definition ex_table_small :: dataframe where
  "ex_table_small = map (\<lambda>c. c\<lparr>col_values := take 3 (col_values c)\<rparr>) ex_table"

text \<open>The same table without its target column.\<close>

definition ex_no_target :: dataframe where
  "ex_no_target = take 2 ex_table"

text \<open>The two candidates of \<open>train_model\<close>, over objects at the addresses 2 to 6.\<close>

definition ex_models :: "(string \<times> pipeline) list" where
  "ex_models =
     [(''Random Forest'', \<lparr>step_preprocessor = 2, step_imputer = 3, step_model = 4\<rparr>),
      (''Gradient Boosting'', \<lparr>step_preprocessor = 2, step_imputer = 5, step_model = 6\<rparr>)]"

definition ex_store :: "(nat \<times> real) store" where
  "ex_store =
     \<lparr>objs = [0 \<mapsto> StandardScaler None,
              1 \<mapsto> OneHotEncoder HU_ignore None,
              2 \<mapsto> ColumnTransformer [(''num'', 0, []), (''cat'', 1, [''Diet''])] None,
              3 \<mapsto> SimpleImputer None,
              4 \<mapsto> Regressor RandomForestRegressor 100 (Some 42) None,
              5 \<mapsto> SimpleImputer None,
              6 \<mapsto> Regressor GradientBoostingRegressor 100 (Some 42) None],
      next_addr = 7\<rparr>"

definition ex_X_train :: dataframe where
  "ex_X_train = [\<lparr>col_name = ''Diet'', col_dtype = Object,
                  col_values = [Str ''vegan'', Str ''omnivore'', Str ''vegan'', Str ''omnivore'']\<rparr>]"

definition ex_y_train :: column where
  "ex_y_train = \<lparr>col_name = ''CarbonEmission'', col_dtype = Int64,
                 col_values = [Num 2, Num 6, Num 4, Num 8]\<rparr>"

definition ex_X_test :: dataframe where
  "ex_X_test = [\<lparr>col_name = ''Diet'', col_dtype = Object,
                 col_values = [Str ''vegan'', Str ''omnivore'']\<rparr>]"

definition ex_y_test :: column where
  "ex_y_test = \<lparr>col_name = ''CarbonEmission'', col_dtype = Int64,
                col_values = [Num 1, Num 3]\<rparr>"

text \<open>
  The same library with one result of numpy's \<^verbatim>\<open>argsort(kind='quicksort')\<close> recorded:
  on the array \<open>(1/32, 1/32, 1/64, 1/64)\<close> it returns the positions \<open>3, 2, 1, 0\<close>,
  which puts the values in ascending order and the equal ones in the opposite of their
  order. Four rows whose importances, read from the back, are that array.
\<close>

definition ex_lib_unstable :: "(nat, nat \<times> real) lib" where
  "ex_lib_unstable =
     ex_lib\<lparr>argsort := (\<lambda>xs. if xs = [1 / 32, 1 / 32, 1 / 64, 1 / 64] then [3, 2, 1, 0]
                              else argsort ex_lib xs)\<rparr>"

definition ex_tied_rows :: "(string \<times> real) list" where
  "ex_tied_rows =
     [(''Distance'', 1 / 64), (''Age'', 1 / 64), (''Diet_omnivore'', 1 / 32), (''Diet_vegan'', 1 / 32)]"

definition ex_importance_rows :: "(string \<times> real) list" where
  "ex_importance_rows = [(''Distance'', 1 / 4), (''Diet_omnivore'', 1 / 4), (''Diet_vegan'', 1 / 2)]"

text \<open>A held-out target without variance.\<close>

definition ex_y_test_const :: column where
  "ex_y_test_const = \<lparr>col_name = ''CarbonEmission'', col_dtype = Int64,
                      col_values = [Num 3, Num 3]\<rparr>"

text \<open>
  A table whose numeric column has no observed value in the rows that become the
  training split (the last four).
\<close>

definition ex_table_nan :: dataframe where
  "ex_table_nan =
     [\<lparr>col_name = ''Distance'', col_dtype = Float64,
        col_values = [Num 10, Num 20, Missing, Missing, Missing, Missing]\<rparr>,
      \<lparr>col_name = ''Diet'', col_dtype = Object,
        col_values = [Str ''vegan'', Str ''omnivore'', Str ''vegan'', Str ''omnivore'',
                      Str ''vegan'', Str ''omnivore'']\<rparr>,
      \<lparr>col_name = ''CarbonEmission'', col_dtype = Int64,
        col_values = [Num 1, Num 3, Num 2, Num 6, Num 4, Num 8]\<rparr>]"

text \<open>A table whose only feature column is numeric.\<close>

definition ex_table_numeric :: dataframe where
  "ex_table_numeric =
     [\<lparr>col_name = ''Distance'', col_dtype = Float64,
        col_values = [Num 10, Num 20, Num 30, Num 40, Num 50, Num 60]\<rparr>,
      \<lparr>col_name = ''CarbonEmission'', col_dtype = Int64,
        col_values = [Num 1, Num 3, Num 2, Num 6, Num 4, Num 8]\<rparr>]"

text \<open>A prediction-time row whose category was not seen in training.\<close>

definition ex_X_unseen :: dataframe where
  "ex_X_unseen = [\<lparr>col_name = ''Diet'', col_dtype = Object, col_values = [Str ''pescatarian'']\<rparr>]"

text \<open>
  Two prediction-time rows whose \<open>Diet\<close> column was read as a column of numbers: one
  holds a number, the other an empty cell.
\<close>

definition ex_X_number :: dataframe where
  "ex_X_number = [\<lparr>col_name = ''Diet'', col_dtype = Float64, col_values = [Num (7 / 2)]\<rparr>]"

definition ex_X_empty :: dataframe where
  "ex_X_empty = [\<lparr>col_name = ''Diet'', col_dtype = Float64, col_values = [Missing]\<rparr>]"

section \<open>Properties\<close>

lemmas model_defs =
  main_def preprocess_data_def train_model_def evaluate_candidate_def update_best_def
  pipeline_fit_def pipeline_predict_def ct_fit_transform_def ct_transform_def
  tf_fit_transform_def tf_transform_def ohe_categories_def ohe_transform_column_def
  imputer_fit_transform_def imputer_transform_def imputer_apply_def regressor_fit_def
  regressor_predict_def train_test_split_def take_rows_def mean_absolute_error_def
  mean_squared_error_def r2_score_def np_average_def residual_ss_def total_ss_def
  object_array_def no_rows_def dtype_matches_def drop_column_def getitem_def select_dtypes_def
  columns_def n_rows_def alloc_def put_def empty_store_def select_columns_def rows_of_def
  observed_def median_def check_random_state_def categorical_dtypes_def
  numerical_dtypes_def scaler_fit_column_def scaler_transform_column_def
  feature_importance_analysis_def named_transformers_def get_feature_names_out_def
  category_str_def DataFrame_def sort_values_desc_def

lemmas ex_defs =
  ex_lib_def ex_table_def ex_no_target_def ex_models_def ex_store_def
  ex_X_train_def ex_y_train_def ex_X_test_def ex_y_test_def ex_X_unseen_def ex_table_nan_def ex_y_test_const_def ex_importance_rows_def ex_lib_unstable_def ex_table_small_def ex_table_numeric_def ex_tied_rows_def
  exact1_def exact2_def exact_div_def ex_X_number_def ex_X_empty_def

lemma mapM_length: "mapM f xs = Inr ys \<Longrightarrow> length ys = length xs"
  by (induction xs arbitrary: ys) (auto split: sum.splits)

subsection \<open>Routing of the feature columns\<close>

lemma select_dtypes_mem:
  assumes "distinct (columns X)" and "c \<in> set X"
  shows "col_name c \<in> set (select_dtypes X ds) \<longleftrightarrow> list_ex (dtype_matches (col_dtype c)) ds"
proof -
  from assms(1) have inj: "inj_on col_name (set X)"
    by (simp add: columns_def distinct_map)
  show ?thesis
  proof
    assume "col_name c \<in> set (select_dtypes X ds)"
    then obtain c' where c': "c' \<in> set X" "list_ex (dtype_matches (col_dtype c')) ds"
      "col_name c' = col_name c"
      by (auto simp: select_dtypes_def)
    with inj assms(2) have "c' = c" by (auto dest: inj_onD)
    with c' show "list_ex (dtype_matches (col_dtype c)) ds" by simp
  next
    assume "list_ex (dtype_matches (col_dtype c)) ds"
    with assms(2) show "col_name c \<in> set (select_dtypes X ds)"
      by (auto simp: select_dtypes_def)
  qed
qed

lemma select_dtypes_subset: "set (select_dtypes X ds) \<subseteq> set (columns X)"
  by (auto simp: select_dtypes_def columns_def)

lemma categorical_match:
  "list_ex (dtype_matches d) categorical_dtypes \<longleftrightarrow> d \<in> {Object, Category, StringDtype}"
  by (cases d) (simp_all add: categorical_dtypes_def dtype_matches_def)

lemma numerical_match:
  "list_ex (dtype_matches d) numerical_dtypes
     \<longleftrightarrow> d \<in> {Int64, Float64, NullableInt64, NullableFloat64}"
  by (cases d) (simp_all add: numerical_dtypes_def dtype_matches_def)

lemma getitem_distinct:
  assumes "distinct (columns X)" and "c \<in> set X"
  shows "getitem X (col_name c) = Inr c"
proof -
  from assms(1) have inj: "inj_on col_name (set X)" and d: "distinct X"
    by (simp_all add: columns_def distinct_map)
  have "filter (\<lambda>d. col_name d = col_name c) X = filter (\<lambda>d. d = c) X"
    using inj assms(2) by (intro filter_cong) (auto dest: inj_onD)
  also have "\<dots> = [c]"
    using d assms(2) by (induction X) (auto simp: filter_empty_conv)
  finally show ?thesis by (simp add: getitem_def)
qed

lemma mapM_map_Inr: "\<forall>x \<in> set xs. f (g x) = Inr x \<Longrightarrow> mapM f (map g xs) = Inr xs"
  by (induction xs) auto

lemma select_columns_select_dtypes:
  assumes "distinct (columns X)"
  shows "select_columns X (select_dtypes X ds)
           = Inr (filter (\<lambda>c. list_ex (dtype_matches (col_dtype c)) ds) X)"
  unfolding select_columns_def select_dtypes_def
  by (rule mapM_map_Inr) (simp add: getitem_distinct [OF assms])

lemma preprocess_data_Inr:
  assumes "preprocess_data s df = Inr (s', X, y, p, cat, num)"
  shows "X = filter (\<lambda>c. col_name c \<noteq> ''CarbonEmission'') df"
    and "cat = select_dtypes X categorical_dtypes"
    and "num = select_dtypes X numerical_dtypes"
    and "''CarbonEmission'' \<in> set (columns df)"
  using assms
  by (auto simp: preprocess_data_def drop_column_def alloc_def Let_def
           split: sum.splits if_splits)

lemma preprocess_data_store:
  assumes "preprocess_data s df = Inr (s1, X, y, p, cat, num)"
  shows "p = Suc (Suc (next_addr s))" and "next_addr s1 = Suc (Suc (Suc (next_addr s)))"
    and "objs s1 p = Some (ColumnTransformer
            [(''num'', next_addr s, num), (''cat'', Suc (next_addr s), cat)] None)"
    and "objs s1 (next_addr s) = Some (StandardScaler None)"
    and "objs s1 (Suc (next_addr s)) = Some (OneHotEncoder HU_ignore None)"
  using assms
  by (auto simp: preprocess_data_def alloc_def Let_def split: sum.splits)

text \<open>
  Claim C3, as the code has it. For a table with distinct labels that has the target
  column, the feature table is the input without the target, the two routing lists are
  disjoint and hold feature labels only, and a feature column is on the categorical list
  exactly when its dtype is \<open>object\<close>, \<open>category\<close> or the string dtype, on the
  numerical list exactly when its dtype is a 64-bit integer or float (numpy's or the
  nullable one). A column of any other dtype is on neither list. The preprocessor built
  is a column transformer over an unfitted scaler with the numerical list and an
  unfitted encoder with the categorical list, and these two transformers are given
  exactly the columns of the dtypes named: a column on neither list is given to none.
\<close>

theorem preprocess_data_routing:
  assumes "preprocess_data s df = Inr (s', X, y, p, cat, num)" and "distinct (columns df)"
  shows "X = filter (\<lambda>c. col_name c \<noteq> ''CarbonEmission'') df
     \<and> set cat \<inter> set num = {}
     \<and> set cat \<union> set num \<subseteq> set (columns X)
     \<and> (\<forall>c \<in> set X.
           (col_name c \<in> set cat \<longleftrightarrow> col_dtype c \<in> {Object, Category, StringDtype})
         \<and> (col_name c \<in> set num
              \<longleftrightarrow> col_dtype c \<in> {Int64, Float64, NullableInt64, NullableFloat64}))
     \<and> (\<exists>sc en. objs s' p = Some (ColumnTransformer [(''num'', sc, num), (''cat'', en, cat)] None)
                \<and> objs s' sc = Some (StandardScaler None)
                \<and> objs s' en = Some (OneHotEncoder HU_ignore None))
     \<and> select_columns X num
         = Inr (filter (\<lambda>c. col_dtype c \<in> {Int64, Float64, NullableInt64, NullableFloat64}) X)
     \<and> select_columns X cat
         = Inr (filter (\<lambda>c. col_dtype c \<in> {Object, Category, StringDtype}) X)"
proof -
  note r = preprocess_data_Inr [OF assms(1)]
  note st = preprocess_data_store [OF assms(1)]
  from assms(2) have dX: "distinct (columns X)"
    by (simp add: r(1) columns_def distinct_map_filter)
  have mem: "\<forall>c \<in> set X.
           (col_name c \<in> set cat \<longleftrightarrow> col_dtype c \<in> {Object, Category, StringDtype})
         \<and> (col_name c \<in> set num
              \<longleftrightarrow> col_dtype c \<in> {Int64, Float64, NullableInt64, NullableFloat64})"
    using select_dtypes_mem [OF dX]
    by (simp add: r(2) r(3) categorical_match numerical_match)
  have sub: "set cat \<union> set num \<subseteq> set (columns X)"
    using select_dtypes_subset by (auto simp: r(2) r(3))
  have disj: "set cat \<inter> set num = {}"
  proof (rule ccontr)
    assume "set cat \<inter> set num \<noteq> {}"
    then obtain n where n: "n \<in> set cat" "n \<in> set num" by auto
    with sub obtain c where c: "c \<in> set X" "col_name c = n" by (auto simp: columns_def)
    with mem n show False by auto
  qed
  have built: "\<exists>sc en. objs s' p = Some (ColumnTransformer [(''num'', sc, num), (''cat'', en, cat)] None)
                \<and> objs s' sc = Some (StandardScaler None)
                \<and> objs s' en = Some (OneHotEncoder HU_ignore None)"
    using st(3,4,5) by blast
  have seln: "select_columns X num
         = Inr (filter (\<lambda>c. col_dtype c \<in> {Int64, Float64, NullableInt64, NullableFloat64}) X)"
    unfolding r(3) select_columns_select_dtypes [OF dX] by (simp add: numerical_match)
  have selc: "select_columns X cat
         = Inr (filter (\<lambda>c. col_dtype c \<in> {Object, Category, StringDtype}) X)"
    unfolding r(2) select_columns_select_dtypes [OF dX] by (simp add: categorical_match)
  show ?thesis
    by (intro conjI) (rule r(1) disj sub mem built seln selc)+
qed

lemma ex_table_preprocessed:
  "\<exists>s'. preprocess_data (empty_store :: (nat \<times> real) store) ex_table
          = Inr (s', take 2 ex_table, ex_table ! 2, 2, [''Diet''], [])"
  by (simp add: model_defs ex_defs Let_def)

theorem preprocess_data_routing_witness:
  "\<exists>s'. preprocess_data (empty_store :: (nat \<times> real) store) ex_table
          = Inr (s', take 2 ex_table, ex_table ! 2, 2, [''Diet''], [])
      \<and> distinct (columns ex_table)
      \<and> take 2 ex_table = filter (\<lambda>c. col_name c \<noteq> ''CarbonEmission'') ex_table
      \<and> set [''Diet''] \<inter> set ([] :: string list) = {}
      \<and> set [''Diet''] \<union> set [] \<subseteq> set (columns (take 2 ex_table))
      \<and> (\<forall>c \<in> set (take 2 ex_table).
            (col_name c \<in> set [''Diet''] \<longleftrightarrow> col_dtype c \<in> {Object, Category, StringDtype})
          \<and> (col_name c \<in> set []
               \<longleftrightarrow> col_dtype c \<in> {Int64, Float64, NullableInt64, NullableFloat64}))
      \<and> (\<exists>sc en. objs s' 2 = Some (ColumnTransformer [(''num'', sc, []), (''cat'', en, [''Diet''])] None)
                \<and> objs s' sc = Some (StandardScaler None)
                \<and> objs s' en = Some (OneHotEncoder HU_ignore None))
      \<and> select_columns (take 2 ex_table) []
         = Inr (filter (\<lambda>c. col_dtype c \<in> {Int64, Float64, NullableInt64, NullableFloat64})
                  (take 2 ex_table))
      \<and> select_columns (take 2 ex_table) [''Diet'']
         = Inr (filter (\<lambda>c. col_dtype c \<in> {Object, Category, StringDtype}) (take 2 ex_table))"
proof -
  from ex_table_preprocessed obtain s' where
    run: "preprocess_data (empty_store :: (nat \<times> real) store) ex_table
            = Inr (s', take 2 ex_table, ex_table ! 2, 2, [''Diet''], [])" ..
  have d: "distinct (columns ex_table)"
    by (simp add: columns_def ex_table_def)
  note concl = preprocess_data_routing [OF run d]
  show ?thesis
    by (rule exI [of _ s'], rule conjI [OF run], rule conjI [OF d concl])
qed

text \<open>
  Claim C3 as stated fails: the boolean column \<open>Recycles\<close> of the example table is a
  feature column and is on neither routing list, and neither transformer of the
  preprocessor is given it.
\<close>

theorem preprocess_data_routing_counterexample:
  "\<exists>s' X y p cat num sc en.
      preprocess_data (empty_store :: (nat \<times> real) store) ex_table = Inr (s', X, y, p, cat, num)
    \<and> ''Recycles'' \<in> set (columns X) \<and> ''Recycles'' \<notin> set cat \<and> ''Recycles'' \<notin> set num
    \<and> objs s' p = Some (ColumnTransformer [(''num'', sc, num), (''cat'', en, cat)] None)"
  by (simp add: model_defs ex_defs Let_def)

subsection \<open>A table without the target column\<close>

text \<open>
  Claim C7, as the code has it. For every table without a column \<open>CarbonEmission\<close>,
  \<open>preprocess_data\<close> fails, with the KeyError of \<^verbatim>\<open>df.drop\<close>.
\<close>

theorem preprocess_data_missing_target:
  "''CarbonEmission'' \<notin> set (columns df) \<Longrightarrow> preprocess_data s df = Inl KeyError"
  by (simp add: preprocess_data_def drop_column_def)

theorem preprocess_data_missing_target_witness:
  "''CarbonEmission'' \<notin> set (columns ex_no_target)
   \<and> preprocess_data (empty_store :: (nat \<times> real) store) ex_no_target = Inl KeyError"
proof -
  have h: "''CarbonEmission'' \<notin> set (columns ex_no_target)"
    by (simp add: columns_def ex_defs)
  from preprocess_data_missing_target [OF h] h show ?thesis by blast
qed

text \<open>Claim C7 as stated fails: the error is not a \<open>SchemaError\<close>.\<close>

theorem preprocess_data_missing_target_counterexample:
  "''CarbonEmission'' \<notin> set (columns ex_no_target)
   \<and> preprocess_data (empty_store :: (nat \<times> real) store) ex_no_target \<noteq> Inl SchemaError"
  by (simp add: model_defs ex_defs)

subsection \<open>Selection of the best candidate\<close>

lemma float_gt_Fin: "is_finite a \<Longrightarrow> is_finite b \<Longrightarrow> float_gt a b \<or> float_le a b"
  by (cases a; cases b) auto

lemma float_le_refl: "is_finite a \<Longrightarrow> float_le a a"
  by (cases a) auto

lemma float_le_trans_gt: "float_le a b \<Longrightarrow> float_gt c b \<Longrightarrow> float_le a c"
  by (cases a; cases b; cases c) auto

lemma float_gt_trans_gt: "float_gt b a \<Longrightarrow> float_gt c b \<Longrightarrow> float_gt c a"
  by (cases a; cases b; cases c) auto

lemma float_gt_le: "is_finite a \<Longrightarrow> is_finite b \<Longrightarrow> \<not> float_gt a b \<Longrightarrow> float_le a b"
  by (cases a; cases b) auto

lemma float_gt_NegInf: "is_finite a \<Longrightarrow> float_gt a NegInf"
  by (cases a) auto

lemma scan_best_nil: "scan_best cur [] = cur"
  by (simp add: scan_best_def)

lemma scan_best_snoc:
  "scan_best cur (cs @ [c]) = update_best (scan_best cur cs) (fst (fst c)) (snd (fst c)) (r2 (snd c))"
  by (simp add: scan_best_def split: prod.splits)

lemma scan_best_first_max:
  assumes "\<forall>c \<in> set cs. is_finite (r2 (snd c))" and "cs \<noteq> []"
  shows "\<exists>i. is_first_max cs i
            \<and> scan_best (None, NegInf) cs
                = (Some \<lparr>best_name = fst (fst (cs ! i)), best_pipeline = snd (fst (cs ! i))\<rparr>,
                   r2 (snd (cs ! i)))"
  using assms
proof (induction cs rule: rev_induct)
  case Nil
  then show ?case by simp
next
  case (snoc c cs)
  have fc: "is_finite (r2 (snd c))" using snoc.prems by simp
  show ?case
  proof (cases "cs = []")
    case True
    have "is_first_max [c] 0"
      using fc by (simp add: is_first_max_def float_le_refl)
    moreover have "scan_best (None, NegInf) [c]
        = (Some \<lparr>best_name = fst (fst c), best_pipeline = snd (fst c)\<rparr>, r2 (snd c))"
      using fc scan_best_snoc [of "(None, NegInf)" "[]" c]
      by (simp add: scan_best_nil update_best_def float_gt_NegInf)
    ultimately show ?thesis using True by (intro exI [of _ 0]) simp
  next
    case False
    with snoc obtain i where i: "is_first_max cs i"
      and sb: "scan_best (None, NegInf) cs
                = (Some \<lparr>best_name = fst (fst (cs ! i)), best_pipeline = snd (fst (cs ! i))\<rparr>,
                   r2 (snd (cs ! i)))"
      by auto
    from i have il: "i < length cs" by (simp add: is_first_max_def)
    have fi: "is_finite (r2 (snd (cs ! i)))" using snoc.prems il by simp
    show ?thesis
    proof (cases "float_gt (r2 (snd c)) (r2 (snd (cs ! i)))")
      case True
      have "is_first_max (cs @ [c]) (length cs)"
        unfolding is_first_max_def
      proof (intro conjI allI impI)
        show "length cs < length (cs @ [c])" by simp
      next
        fix j assume "j < length (cs @ [c])"
        then consider "j < length cs" | "j = length cs" by fastforce
        then show "float_le (r2 (snd ((cs @ [c]) ! j))) (r2 (snd ((cs @ [c]) ! length cs)))"
        proof cases
          case 1
          with i have "float_le (r2 (snd (cs ! j))) (r2 (snd (cs ! i)))"
            by (simp add: is_first_max_def)
          with True 1 show ?thesis
            by (simp add: nth_append float_le_trans_gt)
        next
          case 2
          then show ?thesis using fc by (simp add: float_le_refl)
        qed
      next
        fix j assume j: "j < length cs"
        with i have "float_le (r2 (snd (cs ! j))) (r2 (snd (cs ! i)))"
          by (simp add: is_first_max_def)
        with True have "float_gt (r2 (snd c)) (r2 (snd (cs ! j)))"
          by (cases "r2 (snd c)"; cases "r2 (snd (cs ! i))"; cases "r2 (snd (cs ! j))") auto
        with j show "float_gt (r2 (snd ((cs @ [c]) ! length cs))) (r2 (snd ((cs @ [c]) ! j)))"
          by (simp add: nth_append)
      qed
      moreover have "scan_best (None, NegInf) (cs @ [c])
          = (Some \<lparr>best_name = fst (fst c), best_pipeline = snd (fst c)\<rparr>, r2 (snd c))"
        using True by (simp add: scan_best_snoc sb update_best_def)
      ultimately show ?thesis by (intro exI [of _ "length cs"]) simp
    next
      case nogt: False
      have le: "float_le (r2 (snd c)) (r2 (snd (cs ! i)))"
        using nogt fc fi by (rule_tac float_gt_le)
      have "is_first_max (cs @ [c]) i"
        unfolding is_first_max_def
      proof (intro conjI allI impI)
        show "i < length (cs @ [c])" using il by simp
      next
        fix j assume "j < length (cs @ [c])"
        then consider "j < length cs" | "j = length cs" by fastforce
        then show "float_le (r2 (snd ((cs @ [c]) ! j))) (r2 (snd ((cs @ [c]) ! i)))"
        proof cases
          case 1
          with i il show ?thesis by (simp add: is_first_max_def nth_append)
        next
          case 2
          with le il show ?thesis by (simp add: nth_append)
        qed
      next
        fix j assume "j < i"
        with i il show "float_gt (r2 (snd ((cs @ [c]) ! i))) (r2 (snd ((cs @ [c]) ! j)))"
          by (simp add: is_first_max_def nth_append)
      qed
      moreover have "scan_best (None, NegInf) (cs @ [c])
          = (Some \<lparr>best_name = fst (fst (cs ! i)), best_pipeline = snd (fst (cs ! i))\<rparr>,
             r2 (snd (cs ! i)))"
        using nogt by (simp add: scan_best_snoc sb update_best_def)
      ultimately show ?thesis using il by (intro exI [of _ i]) (simp add: nth_append)
    qed
  qed
qed


lemma dict_set_fresh: "k \<notin> fst ` set d \<Longrightarrow> dict_set d k v = d @ [(k, v)]"
  by (induction d) auto

lemma train_loop_unfold:
  assumes "train_loop L g Xtr ytr Xte yte models (s, results, cur) = Inr (s', results', cur')"
    and "distinct (map fst results @ map fst models)"
  shows "\<exists>rs. length rs = length models
            \<and> results' = results @ zip (map fst models) rs
            \<and> cur' = scan_best cur (zip models rs)
            \<and> map model rs = map snd models"
  using assms
proof (induction models arbitrary: s results cur)
  case Nil
  then show ?case by (simp add: scan_best_nil)
next
  case (Cons m models)
  obtain name pl where m: "m = (name, pl)" by (cases m)
  obtain bm bs where cur: "cur = (bm, bs)" by (cases cur)
  from Cons.prems(1) obtain s1 res where
    ev: "evaluate_candidate L g s pl Xtr ytr Xte yte = Inr (s1, res)"
    and rest: "train_loop L g Xtr ytr Xte yte models
                 (s1, dict_set results name res, update_best (bm, bs) name pl (r2 res))
               = Inr (s', results', cur')"
    by (auto simp: m cur split: sum.splits)
  from Cons.prems(2) have fresh: "name \<notin> fst ` set results"
    by (auto simp: m)
  then have ds: "dict_set results name res = results @ [(name, res)]"
    by (rule dict_set_fresh)
  from Cons.prems(2) have "distinct (map fst (dict_set results name res) @ map fst models)"
    by (auto simp: ds m)
  from Cons.IH [OF rest this] obtain rs where rs: "length rs = length models"
    "results' = dict_set results name res @ zip (map fst models) rs"
    "cur' = scan_best (update_best (bm, bs) name pl (r2 res)) (zip models rs)"
    "map model rs = map snd models"
    by blast
  have "length (res # rs) = length (m # models)" using rs(1) by simp
  moreover have "results' = results @ zip (map fst (m # models)) (res # rs)"
    using rs(2) by (simp add: ds m)
  moreover have "cur' = scan_best cur (zip (m # models) (res # rs))"
    using rs(3) by (simp add: scan_best_def m cur)
  moreover have "map model (res # rs) = map snd (m # models)"
    using rs(4) ev by (auto simp: m evaluate_candidate_def split: sum.splits)
  ultimately show ?case by blast
qed

text \<open>
  Claim C1, as the code has it. Let the loop run over a non-empty list of candidates
  with distinct names, starting from no best model and the score \<open>-\<infinity>\<close>, and let every
  R2 it computed be a finite number. Then \<open>results\<close> lists the candidates in their
  order, and the selected candidate is the one at a position \<open>i\<close> whose R2 is maximal
  and strictly greater than the R2 of every earlier candidate: the first of the maximal
  ones.
\<close>

theorem train_loop_selects_first_max:
  assumes run: "train_loop L g Xtr ytr Xte yte models (s, [], None, NegInf)
                  = Inr (s', results, best_model, best_score)"
    and nonempty: "models \<noteq> []"
    and names: "distinct (map fst models)"
    and finite: "\<forall>c \<in> set results. is_finite (r2 (snd c))"
  shows "map fst results = map fst models
       \<and> (\<exists>i < length models.
            best_model = Some \<lparr>best_name = fst (models ! i), best_pipeline = snd (models ! i)\<rparr>
          \<and> best_score = r2 (snd (results ! i))
          \<and> (\<forall>j < length models. float_le (r2 (snd (results ! j))) (r2 (snd (results ! i))))
          \<and> (\<forall>j < i. float_gt (r2 (snd (results ! i))) (r2 (snd (results ! j)))))"
proof -
  from train_loop_unfold [OF run] names obtain rs where rs: "length rs = length models"
    "results = zip (map fst models) rs" "(best_model, best_score) = scan_best (None, NegInf) (zip models rs)"
    by auto
  let ?cs = "zip models rs"
  have len: "length ?cs = length models" using rs(1) by simp
  have snd_cs: "\<And>j. j < length models \<Longrightarrow> snd (?cs ! j) = snd (results ! j)"
    using rs(1) by (simp add: rs(2))
  have fst_cs: "\<And>j. j < length models \<Longrightarrow> fst (?cs ! j) = models ! j"
    using rs(1) by simp
  have "\<forall>c \<in> set ?cs. is_finite (r2 (snd c))"
  proof
    fix c assume "c \<in> set ?cs"
    then obtain j where j: "j < length models" "c = ?cs ! j"
      using len by (metis in_set_conv_nth)
    then have "j < length results" using rs(1) by (simp add: rs(2))
    then have "results ! j \<in> set results" by (rule nth_mem)
    with finite have "is_finite (r2 (snd (results ! j)))" by blast
    with j snd_cs show "is_finite (r2 (snd c))" by simp
  qed
  moreover have "?cs \<noteq> []" using nonempty rs(1) by (cases models; cases rs) auto
  ultimately obtain i where i: "is_first_max ?cs i"
    and sb: "scan_best (None, NegInf) ?cs
              = (Some \<lparr>best_name = fst (fst (?cs ! i)), best_pipeline = snd (fst (?cs ! i))\<rparr>,
                 r2 (snd (?cs ! i)))"
    using scan_best_first_max by blast
  from i len have il: "i < length models" by (simp add: is_first_max_def)
  have "best_model = Some \<lparr>best_name = fst (models ! i), best_pipeline = snd (models ! i)\<rparr>"
    and "best_score = r2 (snd (results ! i))"
    using rs(3) sb il fst_cs snd_cs by simp_all
  moreover have "\<forall>j < length models. float_le (r2 (snd (results ! j))) (r2 (snd (results ! i)))"
    using i il len snd_cs by (simp add: is_first_max_def)
  moreover have "\<forall>j < i. float_gt (r2 (snd (results ! i))) (r2 (snd (results ! j)))"
    using i il len snd_cs by (simp add: is_first_max_def)
  moreover have "map fst results = map fst models" using rs(1) by (simp add: rs(2))
  ultimately show ?thesis using il by blast
qed

lemma ex_train_loop:
  "\<exists>s'.
     train_loop ex_lib 0 ex_X_train ex_y_train ex_X_test ex_y_test ex_models
        (ex_store, [], None, NegInf)
     = Inr (s', [(''Random Forest'',
                  \<lparr>mae = Fin 3, rmse = Fin (11 / 2), r2 = Fin (- 9), model = snd (ex_models ! 0)\<rparr>),
                 (''Gradient Boosting'',
                  \<lparr>mae = Fin 3, rmse = Fin (11 / 2), r2 = Fin (- 9), model = snd (ex_models ! 1)\<rparr>)],
            Some \<lparr>best_name = ''Random Forest'', best_pipeline = snd (ex_models ! 0)\<rparr>, Fin (- 9))"
  by (simp add: model_defs ex_defs Let_def upt_rec)

theorem train_loop_selects_first_max_witness:
  "\<exists>s' results.
     train_loop ex_lib 0 ex_X_train ex_y_train ex_X_test ex_y_test ex_models
        (ex_store, [], None, NegInf)
       = Inr (s', results, Some \<lparr>best_name = ''Random Forest'', best_pipeline = snd (ex_models ! 0)\<rparr>,
              Fin (- 9))
     \<and> ex_models \<noteq> [] \<and> distinct (map fst ex_models)
     \<and> (\<forall>c \<in> set results. is_finite (r2 (snd c)))
     \<and> map (\<lambda>c. r2 (snd c)) results = [Fin (- 9), Fin (- 9)]
     \<and> map fst results = map fst ex_models
     \<and> (\<exists>i < length ex_models.
          Some \<lparr>best_name = ''Random Forest'', best_pipeline = snd (ex_models ! 0)\<rparr>
            = Some \<lparr>best_name = fst (ex_models ! i), best_pipeline = snd (ex_models ! i)\<rparr>
        \<and> Fin (- 9) = r2 (snd (results ! i))
        \<and> (\<forall>j < length ex_models. float_le (r2 (snd (results ! j))) (r2 (snd (results ! i))))
        \<and> (\<forall>j < i. float_gt (r2 (snd (results ! i))) (r2 (snd (results ! j)))))"
proof -
  from ex_train_loop obtain s' results where
    run: "train_loop ex_lib 0 ex_X_train ex_y_train ex_X_test ex_y_test ex_models
             (ex_store, [], None, NegInf)
          = Inr (s', results,
                 Some \<lparr>best_name = ''Random Forest'', best_pipeline = snd (ex_models ! 0)\<rparr>, Fin (- 9))"
    and scores: "map (\<lambda>c. r2 (snd c)) results = [Fin (- 9), Fin (- 9)]"
    by fastforce
  have ne: "ex_models \<noteq> []" and dn: "distinct (map fst ex_models)"
    by (simp_all add: ex_models_def)
  have fin: "\<forall>c \<in> set results. is_finite (r2 (snd c))"
  proof
    fix c assume "c \<in> set results"
    then have "r2 (snd c) \<in> set (map (\<lambda>c. r2 (snd c)) results)" by simp
    then show "is_finite (r2 (snd c))" unfolding scores by auto
  qed
  from train_loop_selects_first_max [OF run ne dn fin]
  have c1: "map fst results = map fst ex_models"
    and c2: "\<exists>i < length ex_models.
          Some \<lparr>best_name = ''Random Forest'', best_pipeline = snd (ex_models ! 0)\<rparr>
            = Some \<lparr>best_name = fst (ex_models ! i), best_pipeline = snd (ex_models ! i)\<rparr>
        \<and> Fin (- 9) = r2 (snd (results ! i))
        \<and> (\<forall>j < length ex_models. float_le (r2 (snd (results ! j))) (r2 (snd (results ! i))))
        \<and> (\<forall>j < i. float_gt (r2 (snd (results ! i))) (r2 (snd (results ! j))))"
    by blast+
  show ?thesis
    using run ne dn fin scores c1 c2
    by (intro exI [of _ s'] exI [of _ results] conjI) assumption+
qed

text \<open>
  Claim C1 as stated fails. On a table of three rows one row is held out, the R2 of
  either candidate is NaN, no comparison with the current best succeeds, and the loop
  ends with two results and no candidate selected.
\<close>

theorem train_loop_selects_first_max_counterexample:
  "\<exists>s1 X y s2 X_test y_test results.
      preprocess_data (empty_store :: (nat \<times> real) store) ex_table_small
        = Inr (s1, X, y, 2, [''Diet''], [])
    \<and> train_model ex_lib 0 s1 X y 2 = Inr (s2, None, X_test, y_test, results)
    \<and> map fst results = [''Random Forest'', ''Gradient Boosting'']
    \<and> map (\<lambda>c. r2 (snd c)) results = [NaN, NaN]
    \<and> length (col_values y_test) = 1"
  by (simp add: model_defs ex_defs Let_def upt_rec)

subsection \<open>The order of the importance table\<close>

lemma argsort_ok_ex_lib: "argsort_ok (argsort ex_lib)"
  by (simp add: argsort_ok_def ex_lib_def)

lemma argsort_ok_ex_lib_unstable: "argsort_ok (argsort ex_lib_unstable)"
proof -
  have "mset (argsort ex_lib_unstable xs) = mset [0..<length xs]
      \<and> sorted (map (\<lambda>i. xs ! i) (argsort ex_lib_unstable xs))" for xs
  proof (cases "xs = [1 / 32, 1 / 32, 1 / 64, 1 / 64]")
    case True
    then show ?thesis
      by (simp add: ex_lib_unstable_def upt_rec numeral_2_eq_2 numeral_3_eq_3)
  next
    case False
    with argsort_ok_ex_lib show ?thesis by (simp add: ex_lib_unstable_def argsort_ok_def)
  qed
  then show ?thesis by (simp add: argsort_ok_def)
qed





subsection \<open>A held-out target without variance\<close>

lemma mapM_target_value_const:
  "\<forall>v \<in> set vs. v = Num c \<Longrightarrow> mapM target_value vs = Inr (replicate (length vs) c)"
  by (induction vs) auto

lemma r2_score_constant_target:
  assumes const: "\<forall>v \<in> set y_true. v = Num c"
    and two: "2 \<le> length y_true"
    and len: "length y_pred = length y_true"
  shows "r2_score L y_true y_pred =
           Inr (if residual_ss L (replicate (length y_pred) c) y_pred = Fin 0 then Fin 1
                else if total_ss L (replicate (length y_pred) c) = Fin 0 then Fin 0
                else fsub L (Fin 1) (fdiv L (residual_ss L (replicate (length y_pred) c) y_pred)
                                            (total_ss L (replicate (length y_pred) c))))"
proof -
  have ys: "mapM target_value y_true = Inr (replicate (length y_pred) c)"
    using mapM_target_value_const [OF const] len by simp
  from two len have ne: "y_pred \<noteq> []" "\<not> length y_pred < 2" by auto
  show ?thesis
    unfolding r2_score_def ys using ne by (simp add: Let_def)
qed

lemma metrics_defined:
  assumes "mapM target_value y_true = Inr ys" and "length y_pred = length y_true" and "y_true \<noteq> []"
  shows "\<exists>a b. mean_absolute_error L y_true y_pred = Inr a \<and> mean_squared_error L y_true y_pred = Inr b"
proof -
  from mapM_length [OF assms(1)] have "length ys = length y_true" .
  with assms show ?thesis
    by (auto simp: mean_absolute_error_def mean_squared_error_def)
qed

text \<open>
  Claim C2, as the code has it. When the candidate has been fitted and has predicted,
  and the held-out target is constant over at least two rows, the evaluation returns a
  result and raises nothing. Its R2 is what \<^verbatim>\<open>r2_score\<close> computes: 1 when the sum of
  squared residuals is zero, otherwise 0 when the computed sum of squared deviations of
  the target from its mean is zero, and otherwise one minus the quotient of the two
  sums, in double precision.
\<close>

theorem evaluate_candidate_constant_target:
  assumes fit: "pipeline_fit L g s pl X_train y_train = Inr s'"
    and pred: "pipeline_predict L s' pl X_test = Inr y_pred"
    and len: "length y_pred = length (col_values y_test)"
    and const: "\<forall>v \<in> set (col_values y_test). v = Num c"
    and two: "2 \<le> length (col_values y_test)"
  shows "\<exists>res. evaluate_candidate L g s pl X_train y_train X_test y_test = Inr (s', res)
             \<and> r2 res =
                 (if residual_ss L (replicate (length y_pred) c) y_pred = Fin 0 then Fin 1
                  else if total_ss L (replicate (length y_pred) c) = Fin 0 then Fin 0
                  else fsub L (Fin 1) (fdiv L (residual_ss L (replicate (length y_pred) c) y_pred)
                                              (total_ss L (replicate (length y_pred) c))))"
proof -
  from two have ne: "col_values y_test \<noteq> []" by auto
  from metrics_defined [OF mapM_target_value_const [OF const] len ne]
  obtain a b where "mean_absolute_error L (col_values y_test) y_pred = Inr a"
    "mean_squared_error L (col_values y_test) y_pred = Inr b" by blast
  then show ?thesis
    by (simp add: evaluate_candidate_def fit pred r2_score_constant_target [OF const two len])
qed

lemma ex_const_run:
  "\<exists>s'. pipeline_fit ex_lib 0 ex_store (snd (ex_models ! 0)) ex_X_train ex_y_train = Inr s'
       \<and> pipeline_predict ex_lib s' (snd (ex_models ! 0)) ex_X_test = Inr [5, 5]"
  by (simp add: model_defs ex_defs Let_def upt_rec)

theorem evaluate_candidate_constant_target_witness:
  "\<exists>s'. pipeline_fit ex_lib 0 ex_store (snd (ex_models ! 0)) ex_X_train ex_y_train = Inr s'
       \<and> pipeline_predict ex_lib s' (snd (ex_models ! 0)) ex_X_test = Inr [5, 5]
       \<and> length [5 :: real, 5] = length (col_values ex_y_test_const)
       \<and> (\<forall>v \<in> set (col_values ex_y_test_const). v = Num 3)
       \<and> 2 \<le> length (col_values ex_y_test_const)
       \<and> residual_ss ex_lib (replicate (length [5 :: real, 5]) 3) [5, 5] = Fin 8
       \<and> total_ss ex_lib (replicate (length [5 :: real, 5]) 3) = Fin 0
       \<and> (\<exists>res. evaluate_candidate ex_lib 0 ex_store (snd (ex_models ! 0))
                   ex_X_train ex_y_train ex_X_test ex_y_test_const = Inr (s', res)
               \<and> r2 res =
                   (if residual_ss ex_lib (replicate (length [5 :: real, 5]) 3) [5, 5] = Fin 0 then Fin 1
                    else if total_ss ex_lib (replicate (length [5 :: real, 5]) 3) = Fin 0 then Fin 0
                    else fsub ex_lib (Fin 1)
                           (fdiv ex_lib (residual_ss ex_lib (replicate (length [5 :: real, 5]) 3) [5, 5])
                                        (total_ss ex_lib (replicate (length [5 :: real, 5]) 3)))))"
proof -
  from ex_const_run obtain s' where
    fit: "pipeline_fit ex_lib 0 ex_store (snd (ex_models ! 0)) ex_X_train ex_y_train = Inr s'"
    and pred: "pipeline_predict ex_lib s' (snd (ex_models ! 0)) ex_X_test = Inr [5, 5]"
    by blast
  have len: "length [5 :: real, 5] = length (col_values ex_y_test_const)"
    and const: "\<forall>v \<in> set (col_values ex_y_test_const). v = Num 3"
    and two: "2 \<le> length (col_values ex_y_test_const)"
    by (simp_all add: ex_y_test_const_def)
  have num: "residual_ss ex_lib (replicate (length [5 :: real, 5]) 3) [5, 5] = Fin 8"
    and den: "total_ss ex_lib (replicate (length [5 :: real, 5]) 3) = Fin 0"
    by (simp_all add: residual_ss_def total_ss_def np_average_def ex_lib_def
          exact1_def exact2_def exact_div_def numeral_2_eq_2)
  note concl = evaluate_candidate_constant_target [OF fit pred len const two]
  show ?thesis
    by (rule exI [of _ s'], intro conjI) (rule fit pred len const two num den concl)+
qed

text \<open>
  Claim C2 as stated fails: on a held-out target that is constantly 3, with the
  predictions 5 and 5, the evaluation returns an R2 of zero and raises nothing.
\<close>

theorem evaluate_candidate_constant_target_counterexample:
  "col_values ex_y_test_const = [Num 3, Num 3]
   \<and> (\<exists>s' res. evaluate_candidate ex_lib 0 ex_store (snd (ex_models ! 0))
                   ex_X_train ex_y_train ex_X_test ex_y_test_const = Inr (s', res)
               \<and> r2 res = Fin 0)
   \<and> evaluate_candidate ex_lib 0 ex_store (snd (ex_models ! 0))
                   ex_X_train ex_y_train ex_X_test ex_y_test_const \<noteq> Inl UndefinedMetricError"
  by (simp add: model_defs ex_defs Let_def upt_rec)

subsection \<open>Pairing feature names with importances\<close>

lemma importance_pairs_fitted:
  assumes "objs s (step_model (best_pipeline b)) = Some (Regressor kind n rs (Some (nf, fitted)))"
    and "named_transformers s p ''cat'' = Inr a"
    and "objs s a = Some ohe"
    and "get_feature_names_out L ohe categorical_cols = Inr cat_features"
  shows "feature_importance_analysis L s (Some b) X categorical_cols numerical_cols p =
           (if length (numerical_cols @ cat_features) = length (tree_importances L fitted)
            then Inr (Some (sort_values_desc L
                       (zip (numerical_cols @ cat_features) (tree_importances L fitted))))
            else Inl ValueError)"
  using assms by (simp add: feature_importance_analysis_def DataFrame_def Let_def)

text \<open>
  Claim C6, as the code has it. For a selected model with a fitted estimator and a
  fitted encoder, the names (numeric labels, then the encoder's names) are paired with
  the importances position by position and sorted when the two lengths agree; when they
  differ the data-frame constructor raises a ValueError, and nothing is truncated.
\<close>

theorem feature_importance_analysis_pairs:
  assumes "objs s (step_model (best_pipeline b)) = Some (Regressor kind n rs (Some (nf, fitted)))"
    and "named_transformers s p ''cat'' = Inr a"
    and "objs s a = Some ohe"
    and "get_feature_names_out L ohe categorical_cols = Inr cat_features"
  shows "feature_importance_analysis L s (Some b) X categorical_cols numerical_cols p =
           (if length (numerical_cols @ cat_features) = length (tree_importances L fitted)
            then Inr (Some (sort_values_desc L
                       (zip (numerical_cols @ cat_features) (tree_importances L fitted))))
            else Inl ValueError)"
  using assms by (simp add: feature_importance_analysis_def DataFrame_def Let_def)

lemma ex_table_run:
  "\<exists>s1 s2 X y_test X_test results.
      preprocess_data empty_store ex_table = Inr (s1, X, ex_table ! 2, 2, [''Diet''], [])
    \<and> train_model ex_lib 0 s1 X (ex_table ! 2) 2
         = Inr (s2, Some \<lparr>best_name = ''Random Forest'', best_pipeline = snd (ex_models ! 0)\<rparr>,
                X_test, y_test, results)
    \<and> objs s2 4 = Some (Regressor RandomForestRegressor 100 (Some 42) (Some (2, (2, 5))))
    \<and> named_transformers s2 2 ''cat'' = Inr 8
    \<and> objs s2 8 = Some (OneHotEncoder HU_ignore (Some [[Str ''omnivore'', Str ''vegan'']]))"
  by (simp add: model_defs ex_defs Let_def upt_rec)

theorem feature_importance_analysis_pairs_witness:
  "\<exists>s2 X.
      objs s2 (step_model (best_pipeline
          \<lparr>best_name = ''Random Forest'', best_pipeline = snd (ex_models ! 0)\<rparr>))
        = Some (Regressor RandomForestRegressor 100 (Some 42) (Some (2, (2, 5))))
    \<and> named_transformers s2 2 ''cat'' = Inr 8
    \<and> objs s2 8 = Some (OneHotEncoder HU_ignore (Some [[Str ''omnivore'', Str ''vegan'']]))
    \<and> get_feature_names_out ex_lib
          (OneHotEncoder HU_ignore (Some [[Str ''omnivore'', Str ''vegan'']]) :: (nat \<times> real) obj)
          [''Diet''] = Inr [''Diet_omnivore'', ''Diet_vegan'']
    \<and> feature_importance_analysis ex_lib s2
          (Some \<lparr>best_name = ''Random Forest'', best_pipeline = snd (ex_models ! 0)\<rparr>)
          X [''Diet''] [] 2
        = (if length ([] @ [''Diet_omnivore'', ''Diet_vegan'']) = length (tree_importances ex_lib (2, 5))
           then Inr (Some (sort_values_desc ex_lib
                      (zip ([] @ [''Diet_omnivore'', ''Diet_vegan'']) (tree_importances ex_lib (2, 5)))))
           else Inl ValueError)"
proof -
  from ex_table_run obtain s2 :: "(nat \<times> real) store" where
    reg: "objs s2 4 = Some (Regressor RandomForestRegressor 100 (Some 42) (Some (2, (2, 5))))"
    and nt: "named_transformers s2 2 ''cat'' = Inr 8"
    and enc: "objs s2 8 = Some (OneHotEncoder HU_ignore (Some [[Str ''omnivore'', Str ''vegan'']]))"
    by blast
  have reg': "objs s2 (step_model (best_pipeline
          \<lparr>best_name = ''Random Forest'', best_pipeline = snd (ex_models ! 0)\<rparr>))
        = Some (Regressor RandomForestRegressor 100 (Some 42) (Some (2, (2, 5))))"
    using reg by (simp add: ex_models_def)
  have names: "get_feature_names_out ex_lib
          (OneHotEncoder HU_ignore (Some [[Str ''omnivore'', Str ''vegan'']]) :: (nat \<times> real) obj)
          [''Diet''] = Inr [''Diet_omnivore'', ''Diet_vegan'']"
    by (simp add: get_feature_names_out_def category_str_def)
  from feature_importance_analysis_pairs [OF reg' nt enc names, of ex_no_target "[]"] reg' nt enc names
  show ?thesis by (intro exI [of _ s2] exI [of _ ex_no_target] conjI) assumption+
qed

text \<open>
  Claim C6 as stated fails. On the example table whose numeric column is not observed
  in the training rows, the imputer drops that column, so the estimator has two
  importances for three names: the error raised is a ValueError, not a
  \<open>FeatureNameMismatchError\<close>.
\<close>

theorem feature_importance_analysis_pairs_counterexample:
  "\<exists>s1 s2 X y_test X_test results.
      preprocess_data empty_store ex_table_nan
        = Inr (s1, X, ex_table_nan ! 2, 2, [''Diet''], [''Distance''])
    \<and> train_model ex_lib 0 s1 X (ex_table_nan ! 2) 2
         = Inr (s2, Some \<lparr>best_name = ''Random Forest'', best_pipeline = snd (ex_models ! 0)\<rparr>,
                X_test, y_test, results)
    \<and> feature_importance_analysis ex_lib s2
          (Some \<lparr>best_name = ''Random Forest'', best_pipeline = snd (ex_models ! 0)\<rparr>)
          X [''Diet''] [''Distance''] 2 = Inl ValueError
    \<and> feature_importance_analysis ex_lib s2
          (Some \<lparr>best_name = ''Random Forest'', best_pipeline = snd (ex_models ! 0)\<rparr>)
          X [''Diet''] [''Distance''] 2 \<noteq> Inl FeatureNameMismatchError"
  by (simp add: model_defs ex_defs Let_def upt_rec)

subsection \<open>Two runs on the same input\<close>

lemma all_seeded_empty: "all_seeded empty_store"
  by (simp add: all_seeded_def empty_store_def)

lemma all_seeded_alloc:
  assumes "all_seeded s" and "\<forall>kind n f. ob \<noteq> Regressor kind n None f"
  shows "all_seeded (snd (alloc s ob))"
  using assms by (auto simp: all_seeded_def alloc_def)

lemma all_seeded_put:
  assumes "all_seeded s" and "\<forall>kind n f. ob \<noteq> Regressor kind n None f"
  shows "all_seeded (put s a ob)"
  using assms by (auto simp: all_seeded_def put_def)

lemma tf_fit_transform_kind:
  "tf_fit_transform L t cols = Inr (clone, m) \<Longrightarrow> \<forall>kind n f. clone \<noteq> Regressor kind n None f"
  by (auto simp: tf_fit_transform_def Let_def split: obj.splits sum.splits if_splits)

lemma ct_fit_transformers_seeded:
  "ct_fit_transformers L s X ts = Inr (s', fitted, out) \<Longrightarrow> all_seeded s \<Longrightarrow> all_seeded s'"
proof (induction ts arbitrary: s s' fitted out)
  case Nil
  then show ?case by simp
next
  case (Cons t ts)
  obtain name a cols where t: "t = (name, a, cols)" by (cases t)
  show ?case
  proof (cases "cols = []")
    case True
    with Cons.prems t obtain fitted' where
      "ct_fit_transformers L s X ts = Inr (s', fitted', out)"
      by (auto split: sum.splits)
    with Cons.IH Cons.prems(2) show ?thesis by blast
  next
    case False
    with Cons.prems(1) t obtain template sel clone m fitted' out' where
      fit: "tf_fit_transform L template sel = Inr (clone, m)"
      and rest: "ct_fit_transformers L (snd (alloc s clone)) X ts = Inr (s', fitted', out')"
      by (auto split: sum.splits option.splits prod.splits)
    from all_seeded_alloc [OF Cons.prems(2) tf_fit_transform_kind [OF fit]]
    have "all_seeded (snd (alloc s clone))" .
    with Cons.IH rest show ?thesis by blast
  qed
qed

lemma ct_fit_transform_seeded:
  "ct_fit_transform L s p X = Inr (s', out) \<Longrightarrow> all_seeded s \<Longrightarrow> all_seeded s'"
  by (auto simp: ct_fit_transform_def split: option.splits obj.splits sum.splits
           intro!: all_seeded_put dest: ct_fit_transformers_seeded)

lemma imputer_fit_transform_kind:
  "imputer_fit_transform imp m = Inr (imp', out) \<Longrightarrow> \<forall>kind n f. imp' \<noteq> Regressor kind n None f"
  by (auto simp: imputer_fit_transform_def Let_def split: obj.splits if_splits)

lemma regressor_fit_seeded:
  assumes "\<forall>kind n f. reg \<noteq> Regressor kind n None f"
  shows "regressor_fit L g1 reg m y = regressor_fit L g2 reg m y"
    and "regressor_fit L g1 reg m y = Inr reg' \<Longrightarrow> \<forall>kind n f. reg' \<noteq> Regressor kind n None f"
  using assms
  by (auto simp: regressor_fit_def check_random_state_def split: obj.splits option.splits sum.splits if_splits)

lemma pipeline_fit_seeded:
  assumes "all_seeded s"
  shows "pipeline_fit L g1 s pl X y = pipeline_fit L g2 s pl X y"
    and "pipeline_fit L g1 s pl X y = Inr s' \<Longrightarrow> all_seeded s'"
proof -
  have *: "pipeline_fit L g1 s pl X y = pipeline_fit L g2 s pl X y
         \<and> (pipeline_fit L g1 s pl X y = Inr s' \<longrightarrow> all_seeded s')"
  proof (cases "ct_fit_transform L s (step_preprocessor pl) X")
    case (Inl e)
    then show ?thesis by (simp add: pipeline_fit_def)
  next
    case (Inr r)
    obtain s1 Xt where r: "r = (s1, Xt)" by (cases r)
    from Inr r assms have s1: "all_seeded s1" by (auto dest: ct_fit_transform_seeded)
    show ?thesis
    proof (cases "objs s1 (step_imputer pl)")
      case None
      with Inr r show ?thesis by (simp add: pipeline_fit_def)
    next
      case (Some imp)
      show ?thesis
      proof (cases "imputer_fit_transform imp Xt")
        case (Inl e)
        with Inr r Some show ?thesis by (simp add: pipeline_fit_def)
      next
        case imp: (Inr r2)
        obtain imp' Xi where r2: "r2 = (imp', Xi)" by (cases r2)
        let ?s2 = "put s1 (step_imputer pl) imp'"
        from imp r2 have "\<forall>kind n f. imp' \<noteq> Regressor kind n None f"
          by (auto dest: imputer_fit_transform_kind)
        with s1 have s2: "all_seeded ?s2" by (rule all_seeded_put)
        show ?thesis
        proof (cases "objs ?s2 (step_model pl)")
          case None
          with Inr r Some imp r2 show ?thesis by (simp add: pipeline_fit_def)
        next
          case reg: (Some reg)
          from s2 reg have seeded: "\<forall>kind n f. reg \<noteq> Regressor kind n None f"
            by (auto simp: all_seeded_def)
          note rf = regressor_fit_seeded [OF seeded]
          have eq: "pipeline_fit L g1 s pl X y = pipeline_fit L g2 s pl X y"
            using Inr r Some imp r2 reg rf(1) [of L g1 Xi "col_values y" g2]
            by (simp add: pipeline_fit_def)
          have "pipeline_fit L g1 s pl X y = Inr s' \<longrightarrow> all_seeded s'"
          proof
            assume "pipeline_fit L g1 s pl X y = Inr s'"
            with Inr r Some imp r2 reg obtain reg' where
              reg': "regressor_fit L g1 reg Xi (col_values y) = Inr reg'"
              and s': "s' = put ?s2 (step_model pl) reg'"
              by (auto simp: pipeline_fit_def split: sum.splits)
            show "all_seeded s'"
              unfolding s' by (rule all_seeded_put [OF s2 rf(2) [OF reg']])
          qed
          with eq show ?thesis by blast
        qed
      qed
    qed
  qed
  from * show "pipeline_fit L g1 s pl X y = pipeline_fit L g2 s pl X y" by blast
  from * show "pipeline_fit L g1 s pl X y = Inr s' \<Longrightarrow> all_seeded s'" by blast
qed

lemma evaluate_candidate_seeded:
  assumes "all_seeded s"
  shows "evaluate_candidate L g1 s pl Xtr ytr Xte yte = evaluate_candidate L g2 s pl Xtr ytr Xte yte"
    and "evaluate_candidate L g1 s pl Xtr ytr Xte yte = Inr (s', res) \<Longrightarrow> all_seeded s'"
proof -
  have eq: "pipeline_fit L g1 s pl Xtr ytr = pipeline_fit L g2 s pl Xtr ytr"
    by (rule pipeline_fit_seeded(1) [OF assms])
  show "evaluate_candidate L g1 s pl Xtr ytr Xte yte = evaluate_candidate L g2 s pl Xtr ytr Xte yte"
    by (simp add: evaluate_candidate_def eq)
  assume "evaluate_candidate L g1 s pl Xtr ytr Xte yte = Inr (s', res)"
  then have "pipeline_fit L g1 s pl Xtr ytr = Inr s'"
    by (auto simp: evaluate_candidate_def split: sum.splits)
  then show "all_seeded s'"
    by (rule pipeline_fit_seeded(2) [OF assms])
qed

lemma train_loop_seeded:
  "all_seeded (fst st) \<Longrightarrow>
   train_loop L g1 Xtr ytr Xte yte models st = train_loop L g2 Xtr ytr Xte yte models st"
proof (induction models arbitrary: st)
  case Nil
  then show ?case by simp
next
  case (Cons m models)
  obtain name pl where m: "m = (name, pl)" by (cases m)
  obtain s results bm bs where st: "st = (s, results, bm, bs)" by (cases st)
  from Cons.prems st have s: "all_seeded s" by simp
  have eq: "evaluate_candidate L g1 s pl Xtr ytr Xte yte = evaluate_candidate L g2 s pl Xtr ytr Xte yte"
    by (rule evaluate_candidate_seeded(1) [OF s])
  show ?case
  proof (cases "evaluate_candidate L g2 s pl Xtr ytr Xte yte")
    case (Inl e)
    then show ?thesis by (simp add: m st eq)
  next
    case (Inr r)
    obtain s' res where r: "r = (s', res)" by (cases r)
    from Inr r eq have "evaluate_candidate L g1 s pl Xtr ytr Xte yte = Inr (s', res)" by simp
    then have "all_seeded s'" by (rule evaluate_candidate_seeded(2) [OF s])
    with Cons.IH [of "(s', dict_set results name res, update_best (bm, bs) name pl (r2 res))"] Inr r
    show ?thesis by (simp add: m st eq)
  qed
qed


lemma train_model_alt:
  "train_model L g s X y p =
     (case train_test_split L g X y (1 / 5) (Some 42) of
        Inl e \<Rightarrow> Inl e
      | Inr (X_train, X_test, y_train, y_test) \<Rightarrow>
          (case train_loop L g X_train y_train X_test y_test (candidates s p)
                  (candidate_store s, [], None, NegInf) of
             Inl e \<Rightarrow> Inl e
           | Inr (s', results, best_model, best_score) \<Rightarrow>
               Inr (s', best_model, X_test, y_test, results)))"
proof (cases "train_test_split L g X y (1 / 5) (Some 42)")
  case (Inl e)
  then show ?thesis by (simp add: train_model_def)
next
  case (Inr r)
  obtain X_train X_test y_train y_test where "r = (X_train, X_test, y_train, y_test)"
    by (cases r)
  with Inr show ?thesis
    by (simp add: train_model_def alloc_def Let_def candidates_def candidate_store_def
             del: train_loop.simps)
qed

lemma train_test_split_seeded:
  "train_test_split L g1 X y test_size (Some n) = train_test_split L g2 X y test_size (Some n)"
  by (simp add: train_test_split_def check_random_state_def Let_def)

lemma all_seeded_candidate_store: "all_seeded s \<Longrightarrow> all_seeded (candidate_store s)"
  unfolding candidate_store_def by (intro all_seeded_alloc) simp_all

lemma train_model_split:
  assumes "train_model L g s X y p = Inr (s', best_model, X_test, y_test, results)"
  shows "X_test = take_rows X (take (nat \<lceil>real (n_rows X) / 5\<rceil>)
                     (rng_permutation L (seed_rng L 42) (n_rows X)))"
    and "y_test = y\<lparr>col_values := map (\<lambda>i. col_values y ! i)
                     (take (nat \<lceil>real (n_rows X) / 5\<rceil>)
                        (rng_permutation L (seed_rng L 42) (n_rows X)))\<rparr>"
  using assms
  by (auto simp: train_model_alt train_test_split_def check_random_state_def Let_def
           split: sum.splits prod.splits if_splits)

text \<open>
  Claim C4. The only state a run of \<open>train_model\<close> could read beyond its arguments is
  the process-wide random generator (\<open>g1\<close> in one run, \<open>g2\<close> in the other). Started on
  the same arguments, in a store without unseeded estimators, two runs return the same
  result whatever that state is: the same error, or the same store, selection, held-out
  split and results (MAE, RMSE and R2 of every candidate). The held-out rows are the
  first \<open>\<lceil>n / 5\<rceil>\<close> positions of the shuffle drawn with seed 42.
\<close>

theorem train_model_deterministic:
  assumes "all_seeded s"
  shows "train_model L g1 s X y p = train_model L g2 s X y p
       \<and> (\<forall>s' best_model X_test y_test results.
            train_model L g1 s X y p = Inr (s', best_model, X_test, y_test, results) \<longrightarrow>
              X_test = take_rows X (take (nat \<lceil>real (n_rows X) / 5\<rceil>)
                          (rng_permutation L (seed_rng L 42) (n_rows X)))
            \<and> y_test = y\<lparr>col_values := map (\<lambda>i. col_values y ! i)
                          (take (nat \<lceil>real (n_rows X) / 5\<rceil>)
                             (rng_permutation L (seed_rng L 42) (n_rows X)))\<rparr>)"
proof -
  have "\<And>Xtr ytr Xte yte rest.
     train_loop L g1 Xtr ytr Xte yte (candidates s p) (candidate_store s, rest)
       = train_loop L g2 Xtr ytr Xte yte (candidates s p) (candidate_store s, rest)"
    using all_seeded_candidate_store [OF assms] by (intro train_loop_seeded) simp
  then have "train_model L g1 s X y p = train_model L g2 s X y p"
    by (simp add: train_model_alt train_test_split_seeded [of L g1 _ _ _ _ g2]
             split: sum.splits prod.splits)
  with train_model_split [of L g1 s X y p] show ?thesis by blast
qed

lemma all_seeded_ex_store: "all_seeded ex_store"
  by (simp add: all_seeded_def ex_store_def)

lemma ex_store_run:
  "\<exists>s' results.
     train_model ex_lib 0 ex_store ex_no_target (ex_table ! 2) 2
       = Inr (s', Some \<lparr>best_name = ''Random Forest'',
                        best_pipeline = \<lparr>step_preprocessor = 2, step_imputer = 7, step_model = 8\<rparr>\<rparr>,
              take_rows ex_no_target [0, 1],
              (ex_table ! 2)\<lparr>col_values := [Num 1, Num 3]\<rparr>, results)"
  by (simp add: model_defs ex_defs Let_def upt_rec)

theorem train_model_deterministic_witness:
  "all_seeded ex_store
   \<and> train_model ex_lib 0 ex_store ex_no_target (ex_table ! 2) 2
       = train_model ex_lib 1 ex_store ex_no_target (ex_table ! 2) 2
   \<and> (\<exists>s' best_model results.
         train_model ex_lib 1 ex_store ex_no_target (ex_table ! 2) 2
           = Inr (s', best_model, take_rows ex_no_target [0, 1],
                  (ex_table ! 2)\<lparr>col_values := [Num 1, Num 3]\<rparr>, results))"
  using train_model_deterministic [OF all_seeded_ex_store, of ex_lib 0 ex_no_target "ex_table ! 2" 2 1]
    all_seeded_ex_store ex_store_run
  by metis

subsection \<open>What a fit leaves in the store\<close>

lemma select_columns_length: "select_columns X labels = Inr sel \<Longrightarrow> length sel = length labels"
  by (auto simp: select_columns_def dest: mapM_length)

lemma tf_fit_transform_is_transformer:
  "tf_fit_transform L t cols = Inr (clone, m) \<Longrightarrow> is_transformer clone"
  by (auto simp: tf_fit_transform_def is_transformer_def Let_def split: obj.splits sum.splits if_splits)

lemma ct_fit_transformers_frame:
  assumes "ct_fit_transformers L s X ts = Inr (s', fitted, out)"
  shows "next_addr s \<le> next_addr s'"
    and "\<forall>a < next_addr s. objs s' a = objs s a"
    and "\<forall>a. next_addr s \<le> a \<and> a < next_addr s' \<longrightarrow> (\<exists>c. objs s' a = Some c \<and> is_transformer c)"
proof -
  have "next_addr s \<le> next_addr s' \<and> (\<forall>a < next_addr s. objs s' a = objs s a)
      \<and> (\<forall>a. next_addr s \<le> a \<and> a < next_addr s' \<longrightarrow> (\<exists>c. objs s' a = Some c \<and> is_transformer c))"
    using assms
  proof (induction ts arbitrary: s s' fitted out)
    case Nil
    then show ?case by auto
  next
    case (Cons t ts)
    obtain name a cols where t: "t = (name, a, cols)" by (cases t)
    show ?case
    proof (cases "cols = []")
      case True
      with Cons.prems t obtain fitted' where
        "ct_fit_transformers L s X ts = Inr (s', fitted', out)"
        by (auto split: sum.splits)
      from Cons.IH [OF this] show ?thesis .
    next
      case False
      with Cons.prems t obtain template sel clone m fitted' out' where
        fit: "tf_fit_transform L template sel = Inr (clone, m)"
        and rest: "ct_fit_transformers L (snd (alloc s clone)) X ts = Inr (s', fitted', out')"
        by (auto split: sum.splits option.splits prod.splits)
      let ?s1 = "snd (alloc s clone)"
      note ih = Cons.IH [OF rest]
      have n1: "next_addr ?s1 = Suc (next_addr s)" by (simp add: alloc_def)
      have o1: "objs ?s1 = (objs s)(next_addr s \<mapsto> clone)" by (simp add: alloc_def)
      from ih n1 have le: "next_addr s \<le> next_addr s'" by simp
      have fr: "\<forall>a < next_addr s. objs s' a = objs s a"
        using ih n1 o1 by auto
      have cl: "\<forall>a. next_addr s \<le> a \<and> a < next_addr s' \<longrightarrow> (\<exists>c. objs s' a = Some c \<and> is_transformer c)"
      proof (intro allI impI)
        fix a assume a: "next_addr s \<le> a \<and> a < next_addr s'"
        show "\<exists>c. objs s' a = Some c \<and> is_transformer c"
        proof (cases "a = next_addr s")
          case True
          with ih n1 o1 have "objs s' a = Some clone" by simp
          with tf_fit_transform_is_transformer [OF fit] show ?thesis by simp
        next
          case False
          with a n1 have "next_addr ?s1 \<le> a \<and> a < next_addr s'" by simp
          with ih show ?thesis by blast
        qed
      qed
      from le fr cl show ?thesis by blast
    qed
  qed
  then show "next_addr s \<le> next_addr s'"
    and "\<forall>a < next_addr s. objs s' a = objs s a"
    and "\<forall>a. next_addr s \<le> a \<and> a < next_addr s' \<longrightarrow> (\<exists>c. objs s' a = Some c \<and> is_transformer c)"
    by blast+
qed

text \<open>What a successful pipeline fit leaves in the store.\<close>

lemma pipeline_fit_result:
  assumes fit: "pipeline_fit L g s pl X y = Inr s'"
    and p: "step_preprocessor pl < next_addr s"
    and i: "step_imputer pl < next_addr s"
    and m: "step_model pl < next_addr s"
  shows "\<exists>ts f s1 fitted Xt stats Xi kind n rs f' ys.
           objs s (step_preprocessor pl) = Some (ColumnTransformer ts f)
         \<and> ct_fit_transformers L s X ts = Inr (s1, fitted, Xt)
         \<and> imputer_fit_transform (SimpleImputer None) Xt = Inr (SimpleImputer (Some stats), Xi)
         \<and> mapM target_value (col_values y) = Inr ys
         \<and> objs s (step_model pl) = Some (Regressor kind n rs f')
         \<and> next_addr s' = next_addr s1
         \<and> objs s' = (objs s1)
              (step_preprocessor pl \<mapsto> ColumnTransformer ts (Some fitted),
               step_imputer pl \<mapsto> SimpleImputer (Some stats),
               step_model pl \<mapsto> Regressor kind n rs
                  (Some (length Xi, fit_trees L kind n (check_random_state L rs g) (rows_of Xi) ys)))
         \<and> step_preprocessor pl \<noteq> step_imputer pl
         \<and> step_preprocessor pl \<noteq> step_model pl
         \<and> step_imputer pl \<noteq> step_model pl"
proof -
  from fit obtain s1' Xt where ct: "ct_fit_transform L s (step_preprocessor pl) X = Inr (s1', Xt)"
    by (auto simp: pipeline_fit_def split: sum.splits)
  then obtain ts f s1 fitted where
    cto: "objs s (step_preprocessor pl) = Some (ColumnTransformer ts f)"
    and ctf: "ct_fit_transformers L s X ts = Inr (s1, fitted, Xt)"
    and s1': "s1' = put s1 (step_preprocessor pl) (ColumnTransformer ts (Some fitted))"
    by (auto simp: ct_fit_transform_def split: option.splits obj.splits sum.splits)
  note fr = ct_fit_transformers_frame [OF ctf]
  from fit ct obtain imp imp' Xi where
    io: "objs s1' (step_imputer pl) = Some imp"
    and ift: "imputer_fit_transform imp Xt = Inr (imp', Xi)"
    by (auto simp: pipeline_fit_def split: sum.splits option.splits)
  from ift obtain st0 stats where imp: "imp = SimpleImputer st0" and imp': "imp' = SimpleImputer (Some stats)"
    by (auto simp: imputer_fit_transform_def Let_def split: obj.splits if_splits)
  from ift imp imp' have ift': "imputer_fit_transform (SimpleImputer None) Xt = Inr (SimpleImputer (Some stats), Xi)"
    by (auto simp: imputer_fit_transform_def Let_def split: if_splits)
  have pi: "step_preprocessor pl \<noteq> step_imputer pl"
    using io imp s1' by (auto simp: put_def)
  let ?s2 = "put s1' (step_imputer pl) imp'"
  from fit ct io ift obtain reg reg' where
    ro: "objs ?s2 (step_model pl) = Some reg"
    and rf: "regressor_fit L g reg Xi (col_values y) = Inr reg'"
    and s': "s' = put ?s2 (step_model pl) reg'"
    by (auto simp: pipeline_fit_def Let_def split: sum.splits option.splits)
  from rf obtain kind n rs f' ys where reg: "reg = Regressor kind n rs f'"
    and ys: "mapM target_value (col_values y) = Inr ys"
    and reg': "reg' = Regressor kind n rs
                  (Some (length Xi, fit_trees L kind n (check_random_state L rs g) (rows_of Xi) ys))"
    by (auto simp: regressor_fit_def split: obj.splits sum.splits if_splits)
  have im: "step_imputer pl \<noteq> step_model pl"
    using ro reg imp' by (auto simp: put_def)
  have pm: "step_preprocessor pl \<noteq> step_model pl"
    using ro reg s1' im by (auto simp: put_def)
  have "objs s (step_model pl) = Some (Regressor kind n rs f')"
    using ro reg im pm s1' fr(2) m by (auto simp: put_def)
  moreover have "next_addr s' = next_addr s1"
    by (simp add: s' s1' put_def)
  moreover have "objs s' = (objs s1)
              (step_preprocessor pl \<mapsto> ColumnTransformer ts (Some fitted),
               step_imputer pl \<mapsto> SimpleImputer (Some stats),
               step_model pl \<mapsto> reg')"
    by (simp add: s' s1' put_def imp')
  ultimately show ?thesis
    using cto ctf ift' ys pi pm im unfolding reg' by blast
qed


lemma ct_fit_transformers_entries:
  assumes "ct_fit_transformers L s X ts = Inr (s1, fitted, Xt)"
    and "\<forall>t \<in> set ts. fst (snd t) < next_addr s"
  shows "\<exists>es. fitted = map fst es \<and> Xt = concat (map snd es) \<and> list_all2 (fitted_entry L s s1 X) ts es"
  using assms
proof (induction ts arbitrary: s fitted Xt)
  case Nil
  then show ?case by simp
next
  case (Cons t ts)
  obtain name tmpl cols where t: "t = (name, tmpl, cols)" by (cases t)
  show ?case
  proof (cases "cols = []")
    case True
    with Cons.prems(1) t obtain fitted' where
      rest: "ct_fit_transformers L s X ts = Inr (s1, fitted', Xt)"
      and f: "fitted = (name, tmpl, cols) # fitted'"
      by (auto split: sum.splits)
    from Cons.prems(2) have "\<forall>t \<in> set ts. fst (snd t) < next_addr s" by simp
    from Cons.IH [OF rest this] obtain es where
      es: "fitted' = map fst es" "Xt = concat (map snd es)" "list_all2 (fitted_entry L s s1 X) ts es"
      by blast
    let ?es = "((name, tmpl, cols), []) # es"
    have "fitted_entry L s s1 X t ((name, tmpl, cols), [])"
      using True by (simp add: fitted_entry_def t)
    with es f have "fitted = map fst ?es \<and> Xt = concat (map snd ?es)
        \<and> list_all2 (fitted_entry L s s1 X) (t # ts) ?es"
      by simp
    then show ?thesis by blast
  next
    case False
    with Cons.prems(1) t obtain template sel clone m fitted' out' where
      tm: "objs s tmpl = Some template"
      and sel: "select_columns X cols = Inr sel"
      and fit: "tf_fit_transform L template sel = Inr (clone, m)"
      and rest: "ct_fit_transformers L (snd (alloc s clone)) X ts = Inr (s1, fitted', out')"
      and f: "fitted = (name, next_addr s, cols) # fitted'"
      and o: "Xt = m @ out'"
      by (auto simp: alloc_def split: sum.splits option.splits prod.splits)
    let ?sm = "snd (alloc s clone)"
    have nm: "next_addr ?sm = Suc (next_addr s)" and om: "objs ?sm = (objs s)(next_addr s \<mapsto> clone)"
      by (simp_all add: alloc_def)
    note fr = ct_fit_transformers_frame [OF rest]
    from Cons.prems(2) nm have tl: "\<forall>t \<in> set ts. fst (snd t) < next_addr ?sm" by auto
    from Cons.IH [OF rest tl] obtain es where
      es: "fitted' = map fst es" "out' = concat (map snd es)"
        "list_all2 (fitted_entry L ?sm s1 X) ts es"
      by blast
    have mono: "list_all2 (fitted_entry L s s1 X) ts es"
      using es(3)
    proof (rule list.rel_mono_strong)
      fix t' e assume te: "t' \<in> set ts" "e \<in> set es" "fitted_entry L ?sm s1 X t' e"
      obtain n' t0 c' where t': "t' = (n', t0, c')" by (cases t')
      from Cons.prems(2) te(1) t' have "t0 < next_addr s" by auto
      then have "objs ?sm t0 = objs s t0" by (simp add: om)
      with te(3) show "fitted_entry L s s1 X t' e"
        by (auto simp: fitted_entry_def t' nm split: prod.splits if_splits)
    qed
    have "objs s1 (next_addr s) = Some clone"
      using fr(2) nm om by simp
    moreover have "next_addr s < next_addr s1" using fr(1) nm by simp
    ultimately have hd: "fitted_entry L s s1 X t ((name, next_addr s, cols), m)"
      using False tm sel fit by (auto simp: fitted_entry_def t)
    let ?es = "((name, next_addr s, cols), m) # es"
    from hd mono es f o have "fitted = map fst ?es \<and> Xt = concat (map snd ?es)
        \<and> list_all2 (fitted_entry L s s1 X) (t # ts) ?es"
      by simp
    then show ?thesis by blast
  qed
qed






lemma ohe_transform_length:
  "ohe_transform hu cats cols = Inr m \<Longrightarrow> length m = sum_list (map length cats)"
proof (induction hu cats cols arbitrary: m rule: ohe_transform.induct)
  case (1 hu)
  then show ?case by simp
next
  case (2 hu cats cs col cols)
  then show ?case
    by (auto simp: ohe_transform_column_def split: sum.splits if_splits)
qed simp_all





lemma encoder_fit_output:
  assumes "tf_fit_transform L (OneHotEncoder hu z) sel = Inr (clone, m)"
  shows "\<exists>cats. clone = OneHotEncoder hu (Some cats)
           \<and> mapM (\<lambda>c. ohe_categories (col_values c)) sel = Inr cats
           \<and> length cats = length sel
           \<and> length m = sum_list (map length cats)"
proof -
  from assms obtain cats where cats: "mapM (\<lambda>c. ohe_categories (col_values c)) sel = Inr cats"
    and tr: "ohe_transform hu cats sel = Inr m"
    and clone: "clone = OneHotEncoder hu (Some cats)"
    by (auto simp: tf_fit_transform_def split: sum.splits if_splits)
  from mapM_length [OF cats] ohe_transform_length [OF tr] cats clone show ?thesis by simp
qed






lemma pipeline_fit_cat_encoder:
  assumes fit: "pipeline_fit L g s pl X y = Inr s'"
    and prep: "objs s (step_preprocessor pl)
                 = Some (ColumnTransformer [(''num'', sc, num_cols), (''cat'', en, cat_cols)] f)"
    and template: "objs s en = Some template"
    and allocated: "step_preprocessor pl < next_addr s" "step_imputer pl < next_addr s"
      "step_model pl < next_addr s" "sc < next_addr s" "en < next_addr s"
  shows "next_addr s \<le> next_addr s'"
    and "\<forall>a < next_addr s. a \<noteq> step_preprocessor pl \<and> a \<noteq> step_imputer pl \<and> a \<noteq> step_model pl
            \<longrightarrow> objs s' a = objs s a"
    and "\<exists>fitted. objs s' (step_preprocessor pl)
            = Some (ColumnTransformer [(''num'', sc, num_cols), (''cat'', en, cat_cols)] (Some fitted))"
    and "cat_cols = [] \<Longrightarrow> named_transformers s' (step_preprocessor pl) ''cat'' = Inr en"
    and "cat_cols \<noteq> [] \<Longrightarrow>
           \<exists>a sel clone m. named_transformers s' (step_preprocessor pl) ''cat'' = Inr a
              \<and> next_addr s \<le> a \<and> a < next_addr s'
              \<and> select_columns X cat_cols = Inr sel
              \<and> tf_fit_transform L template sel = Inr (clone, m)
              \<and> objs s' a = Some clone"
    and "\<exists>kind n rs nf fitted_model.
           objs s' (step_model pl) = Some (Regressor kind n rs (Some (nf, fitted_model)))"
proof -
  let ?p = "step_preprocessor pl" and ?i = "step_imputer pl" and ?m = "step_model pl"
  let ?ts = "[(''num'', sc, num_cols), (''cat'', en, cat_cols)]"
  from pipeline_fit_result [OF fit allocated(1-3)]
  obtain ts f0 s1 fitted Xt stats Xi kind n rs f' ys where
    po: "objs s ?p = Some (ColumnTransformer ts f0)"
    and ctf0: "ct_fit_transformers L s X ts = Inr (s1, fitted, Xt)"
    and nx: "next_addr s' = next_addr s1"
    and os0: "objs s' = (objs s1)
              (?p \<mapsto> ColumnTransformer ts (Some fitted),
               ?i \<mapsto> SimpleImputer (Some stats),
               ?m \<mapsto> Regressor kind n rs
                  (Some (length Xi, fit_trees L kind n (check_random_state L rs g) (rows_of Xi) ys)))"
    and ne: "?p \<noteq> ?i" "?p \<noteq> ?m" "?i \<noteq> ?m"
    by blast
  from po prep have ts: "ts = ?ts" by simp
  note ctf = ctf0 [unfolded ts] and os' = os0 [unfolded ts]
  note fr = ct_fit_transformers_frame [OF ctf]
  show "next_addr s \<le> next_addr s'" using fr(1) nx by simp
  show "\<forall>a < next_addr s. a \<noteq> ?p \<and> a \<noteq> ?i \<and> a \<noteq> ?m \<longrightarrow> objs s' a = objs s a"
    using fr(2) by (simp add: os')
  show "\<exists>fitted. objs s' ?p = Some (ColumnTransformer ?ts (Some fitted))"
    using ne by (simp add: os')
  show "\<exists>kind n rs nf fitted_model.
           objs s' ?m = Some (Regressor kind n rs (Some (nf, fitted_model)))"
    by (simp add: os')
  have "\<forall>t \<in> set ?ts. fst (snd t) < next_addr s" using allocated by simp
  from ct_fit_transformers_entries [OF ctf this] obtain es where
    es: "fitted = map fst es" "list_all2 (fitted_entry L s s1 X) ?ts es"
    by blast
  from es(2) obtain e1 e2 where e12: "es = [e1, e2]"
    and e1: "fitted_entry L s s1 X (''num'', sc, num_cols) e1"
    and e2: "fitted_entry L s s1 X (''cat'', en, cat_cols) e2"
    by (auto simp: list_all2_Cons1)
  obtain n1 a1 c1 m1 where e1': "e1 = ((n1, a1, c1), m1)" by (cases e1) auto
  obtain n2 a2 c2 m2 where e2': "e2 = ((n2, a2, c2), m2)" by (cases e2) auto
  from e1 e1' have n1: "n1 = ''num''" by (simp add: fitted_entry_def)
  from e2 e2' have n2: "n2 = ''cat''" by (simp add: fitted_entry_def)
  have nt: "named_transformers s' ?p ''cat'' = Inr a2"
    by (simp add: named_transformers_def os' ne es(1) e12 e1' e2' n1 n2)
  {
    assume "cat_cols = []"
    with e2 e2' have "a2 = en" by (simp add: fitted_entry_def)
    with nt show "named_transformers s' ?p ''cat'' = Inr en" by simp
  }
  {
    assume "cat_cols \<noteq> []"
    with e2 e2' template obtain sel clone where
      a2: "next_addr s \<le> a2" "a2 < next_addr s1"
      and sel: "select_columns X cat_cols = Inr sel"
      and tf: "tf_fit_transform L template sel = Inr (clone, m2)"
      and cl: "objs s1 a2 = Some clone"
      by (auto simp: fitted_entry_def)
    from a2 allocated(1-3) cl have "objs s' a2 = Some clone" by (auto simp: os')
    with nt a2 sel tf nx show "\<exists>a sel clone m. named_transformers s' ?p ''cat'' = Inr a
              \<and> next_addr s \<le> a \<and> a < next_addr s'
              \<and> select_columns X cat_cols = Inr sel
              \<and> tf_fit_transform L template sel = Inr (clone, m)
              \<and> objs s' a = Some clone"
      by auto
  }
qed


lemma scan_best_candidate:
  "scan_best (bm, bs) cs = (Some b, v) \<Longrightarrow> bm = Some b \<or> (\<exists>c \<in> set cs. b = \<lparr>best_name = fst (fst c), best_pipeline = snd (fst c)\<rparr>)"
proof (induction cs arbitrary: b v rule: rev_induct)
  case Nil
  then show ?case by (simp add: scan_best_nil)
next
  case (snoc c cs)
  obtain bm' bs' where sb: "scan_best (bm, bs) cs = (bm', bs')" by (cases "scan_best (bm, bs) cs")
  show ?case
  proof (cases "float_gt (r2 (snd c)) bs'")
    case True
    with snoc.prems sb show ?thesis by (auto simp: scan_best_snoc update_best_def)
  next
    case False
    with snoc.prems sb have "scan_best (bm, bs) cs = (Some b, v)"
      by (simp add: scan_best_snoc update_best_def)
    from snoc.IH [OF this] show ?thesis by auto
  qed
qed

lemma train_model_best:
  assumes "train_model L g s X y p = Inr (s', Some b, X_test, y_test, results)"
  shows "(best_name b, best_pipeline b) \<in> set (candidates s p)"
proof -
  from assms obtain Xtr ytr bs where
    loop: "train_loop L g Xtr ytr X_test y_test (candidates s p) (candidate_store s, [], None, NegInf)
            = Inr (s', results, Some b, bs)"
    by (auto simp: train_model_alt split: sum.splits prod.splits)
  have "distinct (map fst ([] :: (string \<times> eval_result) list) @ map fst (candidates s p))"
    by (simp add: candidates_def)
  from train_loop_unfold [OF loop this] obtain rs where
    rs: "length rs = length (candidates s p)"
      "(Some b, bs) = scan_best (None, NegInf) (zip (candidates s p) rs)"
    by auto
  from rs(2) have "scan_best (None, NegInf) (zip (candidates s p) rs) = (Some b, bs)" by simp
  from scan_best_candidate [OF this] obtain c where
    c: "c \<in> set (zip (candidates s p) rs)"
      "b = \<lparr>best_name = fst (fst c), best_pipeline = snd (fst c)\<rparr>"
    by auto
  obtain c1 c2 where "c = (c1, c2)" by (cases c)
  with c(1) have "fst c \<in> set (candidates s p)" by (simp add: set_zip_leftD)
  with c(2) show ?thesis by simp
qed

lemma train_loop_Cons:
  "train_loop L g Xtr ytr Xte yte ((name, pl) # rest) st =
     (case evaluate_candidate L g (fst st) pl Xtr ytr Xte yte of
        Inl e \<Rightarrow> Inl e
      | Inr (s', res) \<Rightarrow>
          train_loop L g Xtr ytr Xte yte rest
            (s', dict_set (fst (snd st)) name res, update_best (snd (snd st)) name pl (r2 res)))"
  by (cases st) (simp split: sum.splits)

lemma train_model_steps:
  assumes "train_model L g s X y p = Inr (s', best_model, X_test, y_test, results)"
  shows "\<exists>Xtr ytr s_rf r1 r2.
       train_test_split L g X y (1 / 5) (Some 42) = Inr (Xtr, X_test, ytr, y_test)
     \<and> evaluate_candidate L g (candidate_store s) (snd (candidates s p ! 0)) Xtr ytr X_test y_test
          = Inr (s_rf, r1)
     \<and> evaluate_candidate L g s_rf (snd (candidates s p ! 1)) Xtr ytr X_test y_test = Inr (s', r2)
     \<and> results = [(''Random Forest'', r1), (''Gradient Boosting'', r2)]"
proof -
  from assms obtain Xtr ytr bs where
    split: "train_test_split L g X y (1 / 5) (Some 42) = Inr (Xtr, X_test, ytr, y_test)"
    and loop: "train_loop L g Xtr ytr X_test y_test (candidates s p) (candidate_store s, [], None, NegInf)
                 = Inr (s', results, best_model, bs)"
    by (auto simp: train_model_alt split: sum.splits prod.splits)
  from loop obtain s_rf r1 r2 where
    "evaluate_candidate L g (candidate_store s) (snd (candidates s p ! 0)) Xtr ytr X_test y_test
          = Inr (s_rf, r1)"
    "evaluate_candidate L g s_rf (snd (candidates s p ! 1)) Xtr ytr X_test y_test = Inr (s', r2)"
    "results = [(''Random Forest'', r1), (''Gradient Boosting'', r2)]"
    by (auto simp: candidates_def train_loop_Cons split: sum.splits prod.splits)
  with split show ?thesis by blast
qed

lemma evaluate_candidate_fit:
  "evaluate_candidate L g s pl Xtr ytr Xte yte = Inr (s', res) \<Longrightarrow>
     pipeline_fit L g s pl Xtr ytr = Inr s' \<and> model res = pl"
  by (auto simp: evaluate_candidate_def split: sum.splits)

lemma candidate_store_frame:
  "next_addr (candidate_store s) = Suc (Suc (Suc (Suc (next_addr s))))"
  "a < next_addr s \<Longrightarrow> objs (candidate_store s) a = objs s a"
  by (simp_all add: candidate_store_def alloc_def)

lemma main_alt:
  assumes "preprocess_data s df = Inr (s1, X, y, p, cat, num)"
    and "train_model L g s1 X y p = Inr (s', Some b, Xte, yte, results)"
  shows "main L g s df =
           (case feature_importance_analysis L s' (Some b) X cat num p of
              Inl e \<Rightarrow> Inl e
            | Inr importance \<Rightarrow> Inr (s', b, results, importance))"
  using assms by (simp add: main_def)

text \<open>
  Claim C10, as the code has it. Take a run of \<open>main\<close> that reaches the importance
  analysis (preprocessing and training succeeded and a candidate was selected) on a
  table with at least one categorical column. Both candidates were evaluated in turn on
  the same training split, the selected candidate's chain holds the shared preprocessor
  \<open>p\<close>, and the encoder whose names label the importances is the one found in \<open>p\<close> at
  the end. That encoder object was created by the fit of the last candidate, Gradient
  Boosting (its address lies beyond the store as the first candidate left it), not by
  the fit of Random Forest; the two encoders are equal in content, both being fitted on
  the same training split. The analysis pairs the numeric labels and that encoder's
  names with the importances of the selected estimator.
\<close>

theorem main_feature_names_from_last_fit:
  assumes pre: "preprocess_data s df = Inr (s1, X, y, p, cat, num)"
    and tm: "train_model L g s1 X y p = Inr (s', Some b, Xte, yte, results)"
    and cat: "cat \<noteq> []"
  shows "\<exists>Xtr ytr s_rf r1 r2 a_rf a_gb enc names kind n rs nf fitted_model.
      train_test_split L g X y (1 / 5) (Some 42) = Inr (Xtr, Xte, ytr, yte)
    \<and> evaluate_candidate L g (candidate_store s1) (snd (candidates s1 p ! 0)) Xtr ytr Xte yte
         = Inr (s_rf, r1)
    \<and> evaluate_candidate L g s_rf (snd (candidates s1 p ! 1)) Xtr ytr Xte yte = Inr (s', r2)
    \<and> results = [(''Random Forest'', r1), (''Gradient Boosting'', r2)]
    \<and> step_preprocessor (best_pipeline b) = p
    \<and> named_transformers s_rf p ''cat'' = Inr a_rf
    \<and> named_transformers s' p ''cat'' = Inr a_gb
    \<and> a_rf < next_addr s_rf \<and> next_addr s_rf \<le> a_gb
    \<and> objs s_rf a_rf = Some enc \<and> objs s' a_gb = Some enc
    \<and> get_feature_names_out L enc cat = Inr names
    \<and> objs s' (step_model (best_pipeline b)) = Some (Regressor kind n rs (Some (nf, fitted_model)))
    \<and> feature_importance_analysis L s' (Some b) X cat num p
        = (if length (num @ names) = length (tree_importances L fitted_model)
           then Inr (Some (sort_values_desc L (zip (num @ names) (tree_importances L fitted_model))))
           else Inl ValueError)
    \<and> main L g s df
        = (if length (num @ names) = length (tree_importances L fitted_model)
           then Inr (s', b, results,
                     Some (sort_values_desc L (zip (num @ names) (tree_importances L fitted_model))))
           else Inl ValueError)"
proof -
  note ps = preprocess_data_store [OF pre]
  let ?sc = "next_addr s" and ?en = "Suc (next_addr s)"
  let ?s4 = "candidate_store s1"
  let ?rf = "snd (candidates s1 p ! 0)" and ?gb = "snd (candidates s1 p ! 1)"
  from train_model_steps [OF tm] obtain Xtr ytr s_rf r1 r2 where
    split: "train_test_split L g X y (1 / 5) (Some 42) = Inr (Xtr, Xte, ytr, yte)"
    and ev1: "evaluate_candidate L g ?s4 ?rf Xtr ytr Xte yte = Inr (s_rf, r1)"
    and ev2: "evaluate_candidate L g s_rf ?gb Xtr ytr Xte yte = Inr (s', r2)"
    and res: "results = [(''Random Forest'', r1), (''Gradient Boosting'', r2)]"
    by blast
  from evaluate_candidate_fit [OF ev1] have fit1: "pipeline_fit L g ?s4 ?rf Xtr ytr = Inr s_rf" by simp
  from evaluate_candidate_fit [OF ev2] have fit2: "pipeline_fit L g s_rf ?gb Xtr ytr = Inr s'" by simp
  have rf: "step_preprocessor ?rf = p" "step_imputer ?rf = next_addr s1"
      "step_model ?rf = Suc (next_addr s1)"
    and gb: "step_preprocessor ?gb = p" "step_imputer ?gb = Suc (Suc (next_addr s1))"
      "step_model ?gb = Suc (Suc (Suc (next_addr s1)))"
    by (simp_all add: candidates_def)
  note cs = candidate_store_frame [where s = s1]
  \<comment> \<open>the first fit\<close>
  have lt: "p < next_addr s1" "?sc < next_addr s1" "?en < next_addr s1"
    using ps(1,2) by simp_all
  have prep1: "objs ?s4 (step_preprocessor ?rf)
      = Some (ColumnTransformer [(''num'', ?sc, num), (''cat'', ?en, cat)] None)"
    unfolding rf using ps(3) cs(2) [OF lt(1)] by simp
  have tmpl1: "objs ?s4 ?en = Some (OneHotEncoder HU_ignore None)"
    using ps(5) cs(2) [OF lt(3)] by simp
  have al1: "step_preprocessor ?rf < next_addr ?s4" "step_imputer ?rf < next_addr ?s4"
    "step_model ?rf < next_addr ?s4" "?sc < next_addr ?s4" "?en < next_addr ?s4"
    unfolding rf cs(1) using lt by simp_all
  note f1 = pipeline_fit_cat_encoder [OF fit1 prep1 tmpl1 al1]
  \<comment> \<open>the second fit\<close>
  from f1(3) [unfolded rf] obtain fitted1 where
    "objs s_rf p = Some (ColumnTransformer [(''num'', ?sc, num), (''cat'', ?en, cat)] (Some fitted1))"
    by blast
  then have prep2: "objs s_rf (step_preprocessor ?gb)
      = Some (ColumnTransformer [(''num'', ?sc, num), (''cat'', ?en, cat)] (Some fitted1))"
    unfolding gb .
  have en_ne: "?en \<noteq> p" "?en \<noteq> next_addr s1" "?en \<noteq> Suc (next_addr s1)"
      "?en \<noteq> Suc (Suc (next_addr s1))" "?en \<noteq> Suc (Suc (Suc (next_addr s1)))"
    using ps(1,2) by simp_all
  have tmpl2: "objs s_rf ?en = Some (OneHotEncoder HU_ignore None)"
    using f1(2) tmpl1 al1(5) en_ne unfolding rf by simp
  have al2: "step_preprocessor ?gb < next_addr s_rf" "step_imputer ?gb < next_addr s_rf"
    "step_model ?gb < next_addr s_rf" "?sc < next_addr s_rf" "?en < next_addr s_rf"
    unfolding gb using f1(1) lt unfolding cs(1) by simp_all
  note f2 = pipeline_fit_cat_encoder [OF fit2 prep2 tmpl2 al2]
  \<comment> \<open>the selected candidate\<close>
  from train_model_best [OF tm] have cand: "best_pipeline b = ?rf \<or> best_pipeline b = ?gb"
    by (auto simp: candidates_def)
  with rf(1) gb(1) have bp: "step_preprocessor (best_pipeline b) = p" by auto
  from cand obtain kind n rs nf fitted_model where
    reg: "objs s' (step_model (best_pipeline b)) = Some (Regressor kind n rs (Some (nf, fitted_model)))"
  proof
    assume b: "best_pipeline b = ?rf"
    have "Suc (next_addr s1) < next_addr s_rf" using al2(3) unfolding gb by simp
    moreover have "Suc (next_addr s1) \<noteq> p" using lt(1) by simp
    ultimately have "objs s' (Suc (next_addr s1)) = objs s_rf (Suc (next_addr s1))"
      using f2(2) unfolding gb by simp
    with f1(6) [unfolded rf] that show thesis unfolding b rf by auto
  next
    assume b: "best_pipeline b = ?gb"
    with f2(6) that show thesis by auto
  qed
  \<comment> \<open>the two encoders\<close>
  from f1(5) [OF cat, unfolded rf] obtain a_rf sel1 clone1 m1 where
    a_rf: "named_transformers s_rf p ''cat'' = Inr a_rf" "a_rf < next_addr s_rf"
    and sel1: "select_columns Xtr cat = Inr sel1"
    and tf1: "tf_fit_transform L (OneHotEncoder HU_ignore None) sel1 = Inr (clone1, m1)"
    and o1: "objs s_rf a_rf = Some clone1"
    by blast
  from f2(5) [OF cat, unfolded gb] obtain a_gb sel2 clone2 m2 where
    a_gb: "named_transformers s' p ''cat'' = Inr a_gb" "next_addr s_rf \<le> a_gb"
    and sel2: "select_columns Xtr cat = Inr sel2"
    and tf2: "tf_fit_transform L (OneHotEncoder HU_ignore None) sel2 = Inr (clone2, m2)"
    and o2: "objs s' a_gb = Some clone2"
    by blast
  from sel1 sel2 tf1 tf2 have same: "clone2 = clone1" by simp
  from o2 same have o2': "objs s' a_gb = Some clone1" by simp
  from encoder_fit_output [OF tf1] obtain cats where
    cats: "clone1 = OneHotEncoder HU_ignore (Some cats)" "length cats = length sel1"
    by blast
  from select_columns_length [OF sel1] cats(2) have lc: "length cat = length cats" by simp
  let ?names = "concat (map (\<lambda>(col, cs). map (\<lambda>c. col @ ''_'' @ category_str L c) cs) (zip cat cats))"
  have names: "get_feature_names_out L clone1 cat = Inr ?names"
    using lc by (simp add: get_feature_names_out_def cats(1))
  have fia: "feature_importance_analysis L s' (Some b) X cat num p
        = (if length (num @ ?names) = length (tree_importances L fitted_model)
           then Inr (Some (sort_values_desc L (zip (num @ ?names) (tree_importances L fitted_model))))
           else Inl ValueError)"
    by (rule importance_pairs_fitted [OF reg a_gb(1) o2' names])
  have mn: "main L g s df
        = (if length (num @ ?names) = length (tree_importances L fitted_model)
           then Inr (s', b, results,
                     Some (sort_values_desc L (zip (num @ ?names) (tree_importances L fitted_model))))
           else Inl ValueError)"
    unfolding main_alt [OF pre tm] fia by simp
  show ?thesis
    by (intro exI conjI)
       (rule split ev1 ev2 res bp a_rf(1) a_gb(1) a_rf(2) a_gb(2) o1 o2' names reg fia mn)+
qed

lemma pipeline_fit_frame:
  assumes fit: "pipeline_fit L g s pl X y = Inr s'"
    and allocated: "step_preprocessor pl < next_addr s" "step_imputer pl < next_addr s"
      "step_model pl < next_addr s"
  shows "next_addr s \<le> next_addr s'"
    and "\<forall>a < next_addr s. a \<noteq> step_preprocessor pl \<and> a \<noteq> step_imputer pl \<and> a \<noteq> step_model pl
            \<longrightarrow> objs s' a = objs s a"
proof -
  from pipeline_fit_result [OF fit allocated]
  obtain ts s1 fitted Xt stats Xi kind n rs ys where
    ctf: "ct_fit_transformers L s X ts = Inr (s1, fitted, Xt)"
    and nx: "next_addr s' = next_addr s1"
    and os': "objs s' = (objs s1)
              (step_preprocessor pl \<mapsto> ColumnTransformer ts (Some fitted),
               step_imputer pl \<mapsto> SimpleImputer (Some stats),
               step_model pl \<mapsto> Regressor kind n rs
                  (Some (length Xi, fit_trees L kind n (check_random_state L rs g) (rows_of Xi) ys)))"
    by blast
  note fr = ct_fit_transformers_frame [OF ctf]
  show "next_addr s \<le> next_addr s'" using fr(1) nx by simp
  show "\<forall>a < next_addr s. a \<noteq> step_preprocessor pl \<and> a \<noteq> step_imputer pl \<and> a \<noteq> step_model pl
            \<longrightarrow> objs s' a = objs s a"
    using fr(2) by (simp add: os')
qed

lemma pipeline_fit_writes_preprocessor:
  assumes fit: "pipeline_fit L g s pl X y = Inr s'"
    and allocated: "step_preprocessor pl < next_addr s" "step_imputer pl < next_addr s"
      "step_model pl < next_addr s"
  shows "\<exists>ts f s1 fitted Xt.
           objs s (step_preprocessor pl) = Some (ColumnTransformer ts f)
         \<and> ct_fit_transformers L s X ts = Inr (s1, fitted, Xt)
         \<and> objs s' (step_preprocessor pl) = Some (ColumnTransformer ts (Some fitted))"
proof -
  from pipeline_fit_result [OF fit allocated]
  obtain ts f s1 fitted Xt stats Xi kind n rs ys where
    po: "objs s (step_preprocessor pl) = Some (ColumnTransformer ts f)"
    and ctf: "ct_fit_transformers L s X ts = Inr (s1, fitted, Xt)"
    and os': "objs s' = (objs s1)
              (step_preprocessor pl \<mapsto> ColumnTransformer ts (Some fitted),
               step_imputer pl \<mapsto> SimpleImputer (Some stats),
               step_model pl \<mapsto> Regressor kind n rs
                  (Some (length Xi, fit_trees L kind n (check_random_state L rs g) (rows_of Xi) ys)))"
    and ne: "step_preprocessor pl \<noteq> step_imputer pl" "step_preprocessor pl \<noteq> step_model pl"
    by blast
  from ne have "objs s' (step_preprocessor pl) = Some (ColumnTransformer ts (Some fitted))"
    by (simp add: os')
  with po ctf show ?thesis by blast
qed

text \<open>
  Claim C5, as the code has it. In every run of \<open>train_model\<close> on a preprocessor \<open>p\<close> of
  the store, the two candidates are evaluated in turn and both chains hold the one
  preprocessor object \<open>p\<close>. Each chain has an imputer and an estimator of its own,
  and those of the first candidate are, at the end, as its own fit left them. The
  preprocessor is refitted in place by each candidate: after the first fit it records
  the transformers fitted then, and at the end those the second fit produced.
\<close>

theorem train_model_shares_preprocessor:
  assumes run: "train_model L g s X y p = Inr (s', best_model, X_test, y_test, results)"
    and p: "p < next_addr s"
  shows "\<exists>Xtr ytr s_rf r1 r2.
       evaluate_candidate L g (candidate_store s) (model r1) Xtr ytr X_test y_test = Inr (s_rf, r1)
     \<and> evaluate_candidate L g s_rf (model r2) Xtr ytr X_test y_test = Inr (s', r2)
     \<and> results = [(''Random Forest'', r1), (''Gradient Boosting'', r2)]
     \<and> step_preprocessor (model r1) = p \<and> step_preprocessor (model r2) = p
     \<and> step_imputer (model r1) \<noteq> step_imputer (model r2)
     \<and> step_model (model r1) \<noteq> step_model (model r2)
     \<and> objs s' (step_imputer (model r1)) = objs s_rf (step_imputer (model r1))
     \<and> objs s' (step_model (model r1)) = objs s_rf (step_model (model r1))
     \<and> (\<exists>ts sa f_rf Xa sb f_gb Xb.
           ct_fit_transformers L (candidate_store s) Xtr ts = Inr (sa, f_rf, Xa)
         \<and> objs s_rf p = Some (ColumnTransformer ts (Some f_rf))
         \<and> ct_fit_transformers L s_rf Xtr ts = Inr (sb, f_gb, Xb)
         \<and> objs s' p = Some (ColumnTransformer ts (Some f_gb)))"
proof -
  let ?rf = "snd (candidates s p ! 0)" and ?gb = "snd (candidates s p ! 1)"
  from train_model_steps [OF run] obtain Xtr ytr s_rf r1 r2 where
    ev1: "evaluate_candidate L g (candidate_store s) ?rf Xtr ytr X_test y_test = Inr (s_rf, r1)"
    and ev2: "evaluate_candidate L g s_rf ?gb Xtr ytr X_test y_test = Inr (s', r2)"
    and res: "results = [(''Random Forest'', r1), (''Gradient Boosting'', r2)]"
    by blast
  from evaluate_candidate_fit [OF ev1] have fit1: "pipeline_fit L g (candidate_store s) ?rf Xtr ytr = Inr s_rf"
    and m1: "model r1 = ?rf" by simp_all
  from evaluate_candidate_fit [OF ev2] have fit2: "pipeline_fit L g s_rf ?gb Xtr ytr = Inr s'"
    and m2: "model r2 = ?gb" by simp_all
  have rf: "step_preprocessor ?rf = p" "step_imputer ?rf = next_addr s"
      "step_model ?rf = Suc (next_addr s)"
    and gb: "step_preprocessor ?gb = p" "step_imputer ?gb = Suc (Suc (next_addr s))"
      "step_model ?gb = Suc (Suc (Suc (next_addr s)))"
    by (simp_all add: candidates_def)
  note cs = candidate_store_frame [where s = s]
  have al1: "step_preprocessor ?rf < next_addr (candidate_store s)"
    "step_imputer ?rf < next_addr (candidate_store s)"
    "step_model ?rf < next_addr (candidate_store s)"
    unfolding rf cs(1) using p by simp_all
  note f1 = pipeline_fit_frame [OF fit1 al1]
  have al2: "step_preprocessor ?gb < next_addr s_rf" "step_imputer ?gb < next_addr s_rf"
    "step_model ?gb < next_addr s_rf"
    unfolding gb using f1(1) p unfolding cs(1) by simp_all
  note f2 = pipeline_fit_frame [OF fit2 al2]
  have "objs s' (next_addr s) = objs s_rf (next_addr s)"
    and "objs s' (Suc (next_addr s)) = objs s_rf (Suc (next_addr s))"
    using f2(2) [unfolded gb] al2 [unfolded gb] p by simp_all
  then have own: "objs s' (step_imputer (model r1)) = objs s_rf (step_imputer (model r1))"
    "objs s' (step_model (model r1)) = objs s_rf (step_model (model r1))"
    unfolding m1 rf by simp_all
  have pp: "step_preprocessor (model r1) = p" "step_preprocessor (model r2) = p"
    and ne: "step_imputer (model r1) \<noteq> step_imputer (model r2)"
      "step_model (model r1) \<noteq> step_model (model r2)"
    unfolding m1 m2 rf gb by simp_all
  from ev1 ev2 have ev1': "evaluate_candidate L g (candidate_store s) (model r1) Xtr ytr X_test y_test = Inr (s_rf, r1)"
    and ev2': "evaluate_candidate L g s_rf (model r2) Xtr ytr X_test y_test = Inr (s', r2)"
    unfolding m1 m2 by simp_all
  from pipeline_fit_writes_preprocessor [OF fit1 al1, unfolded rf]
  obtain ts f0 sa f_rf Xa where
    w1: "ct_fit_transformers L (candidate_store s) Xtr ts = Inr (sa, f_rf, Xa)"
      "objs s_rf p = Some (ColumnTransformer ts (Some f_rf))"
    by blast
  from pipeline_fit_writes_preprocessor [OF fit2 al2, unfolded gb] w1(2)
  obtain sb f_gb Xb where
    w2: "ct_fit_transformers L s_rf Xtr ts = Inr (sb, f_gb, Xb)"
      "objs s' p = Some (ColumnTransformer ts (Some f_gb))"
    by auto
  from w1 w2 have refit: "\<exists>ts sa f_rf Xa sb f_gb Xb.
           ct_fit_transformers L (candidate_store s) Xtr ts = Inr (sa, f_rf, Xa)
         \<and> objs s_rf p = Some (ColumnTransformer ts (Some f_rf))
         \<and> ct_fit_transformers L s_rf Xtr ts = Inr (sb, f_gb, Xb)
         \<and> objs s' p = Some (ColumnTransformer ts (Some f_gb))"
    by blast
  show ?thesis
    by (rule exI [of _ Xtr], rule exI [of _ ytr], rule exI [of _ s_rf], rule exI [of _ r1],
        rule exI [of _ r2], intro conjI)
       (rule ev1' ev2' res pp ne own refit)+
qed

lemma ex_store_two_fits:
  "\<exists>s' bm results. train_model ex_lib 0 ex_store ex_no_target (ex_table ! 2) 2
     = Inr (s', bm, take_rows ex_no_target [0, 1], (ex_table ! 2)\<lparr>col_values := [Num 1, Num 3]\<rparr>, results)"
  using ex_store_run by blast

theorem train_model_shares_preprocessor_witness:
  "\<exists>s' bm results.
      train_model ex_lib 0 ex_store ex_no_target (ex_table ! 2) 2
         = Inr (s', bm, take_rows ex_no_target [0, 1],
                (ex_table ! 2)\<lparr>col_values := [Num 1, Num 3]\<rparr>, results)
    \<and> 2 < next_addr ex_store
    \<and> (\<exists>Xtr ytr s_rf r1 r2.
       evaluate_candidate ex_lib 0 (candidate_store ex_store) (model r1) Xtr ytr
          (take_rows ex_no_target [0, 1]) ((ex_table ! 2)\<lparr>col_values := [Num 1, Num 3]\<rparr>) = Inr (s_rf, r1)
     \<and> evaluate_candidate ex_lib 0 s_rf (model r2) Xtr ytr
          (take_rows ex_no_target [0, 1]) ((ex_table ! 2)\<lparr>col_values := [Num 1, Num 3]\<rparr>) = Inr (s', r2)
     \<and> results = [(''Random Forest'', r1), (''Gradient Boosting'', r2)]
     \<and> step_preprocessor (model r1) = 2 \<and> step_preprocessor (model r2) = 2
     \<and> step_imputer (model r1) \<noteq> step_imputer (model r2)
     \<and> step_model (model r1) \<noteq> step_model (model r2)
     \<and> objs s' (step_imputer (model r1)) = objs s_rf (step_imputer (model r1))
     \<and> objs s' (step_model (model r1)) = objs s_rf (step_model (model r1))
     \<and> (\<exists>ts sa f_rf Xa sb f_gb Xb.
           ct_fit_transformers ex_lib (candidate_store ex_store) Xtr ts = Inr (sa, f_rf, Xa)
         \<and> objs s_rf 2 = Some (ColumnTransformer ts (Some f_rf))
         \<and> ct_fit_transformers ex_lib s_rf Xtr ts = Inr (sb, f_gb, Xb)
         \<and> objs s' 2 = Some (ColumnTransformer ts (Some f_gb))))"
proof -
  from ex_store_two_fits obtain s' bm results where
    run: "train_model ex_lib 0 ex_store ex_no_target (ex_table ! 2) 2
         = Inr (s', bm, take_rows ex_no_target [0, 1],
                (ex_table ! 2)\<lparr>col_values := [Num 1, Num 3]\<rparr>, results)"
    by blast
  have p: "2 < next_addr ex_store" by (simp add: ex_store_def)
  note concl = train_model_shares_preprocessor [OF run p]
  show ?thesis
    by (rule exI [of _ s'], rule exI [of _ bm], rule exI [of _ results],
        rule conjI [OF run], rule conjI [OF p concl])
qed

text \<open>
  Claim C5 as stated fails. In the example run the two chains hold the same preprocessor
  object (address 2), and what that object holds after the first candidate was fitted
  (the encoder at address 7) is replaced when the second candidate is fitted (by the
  encoder at address 8).
\<close>

theorem train_model_shares_preprocessor_counterexample:
  "\<exists>s1 r1 s2 r2.
     evaluate_candidate ex_lib 0 ex_store (snd (ex_models ! 0))
        ex_X_train ex_y_train ex_X_test ex_y_test = Inr (s1, r1)
   \<and> evaluate_candidate ex_lib 0 s1 (snd (ex_models ! 1))
        ex_X_train ex_y_train ex_X_test ex_y_test = Inr (s2, r2)
   \<and> step_preprocessor (model r1) = 2 \<and> step_preprocessor (model r2) = 2
   \<and> objs s1 2 = Some (ColumnTransformer [(''num'', 0, []), (''cat'', 1, [''Diet''])]
                           (Some [(''num'', 0, []), (''cat'', 7, [''Diet''])]))
   \<and> objs s2 2 = Some (ColumnTransformer [(''num'', 0, []), (''cat'', 1, [''Diet''])]
                           (Some [(''num'', 0, []), (''cat'', 8, [''Diet''])]))"
  by (simp add: model_defs ex_defs Let_def upt_rec)

lemma ex_main_run:
  "\<exists>s1 X s' Xte yte results.
      preprocess_data empty_store ex_table = Inr (s1, X, ex_table ! 2, 2, [''Diet''], [])
    \<and> train_model ex_lib 0 s1 X (ex_table ! 2) 2
         = Inr (s', Some \<lparr>best_name = ''Random Forest'', best_pipeline = snd (ex_models ! 0)\<rparr>,
                Xte, yte, results)"
  by (simp add: model_defs ex_defs Let_def upt_rec)

theorem main_feature_names_from_last_fit_witness:
  "\<exists>s1 X s' Xte yte results.
     preprocess_data empty_store ex_table = Inr (s1, X, ex_table ! 2, 2, [''Diet''], [])
   \<and> train_model ex_lib 0 s1 X (ex_table ! 2) 2
         = Inr (s', Some \<lparr>best_name = ''Random Forest'', best_pipeline = snd (ex_models ! 0)\<rparr>,
                Xte, yte, results)
   \<and> [''Diet''] \<noteq> []
   \<and> (\<exists>Xtr ytr s_rf r1 r2 a_rf a_gb enc names kind n rs nf fitted_model.
      train_test_split ex_lib 0 X (ex_table ! 2) (1 / 5) (Some 42) = Inr (Xtr, Xte, ytr, yte)
    \<and> evaluate_candidate ex_lib 0 (candidate_store s1) (snd (candidates s1 2 ! 0)) Xtr ytr Xte yte
         = Inr (s_rf, r1)
    \<and> evaluate_candidate ex_lib 0 s_rf (snd (candidates s1 2 ! 1)) Xtr ytr Xte yte = Inr (s', r2)
    \<and> results = [(''Random Forest'', r1), (''Gradient Boosting'', r2)]
    \<and> step_preprocessor (best_pipeline
          \<lparr>best_name = ''Random Forest'', best_pipeline = snd (ex_models ! 0)\<rparr>) = 2
    \<and> named_transformers s_rf 2 ''cat'' = Inr a_rf
    \<and> named_transformers s' 2 ''cat'' = Inr a_gb
    \<and> a_rf < next_addr s_rf \<and> next_addr s_rf \<le> a_gb
    \<and> objs s_rf a_rf = Some enc \<and> objs s' a_gb = Some enc
    \<and> get_feature_names_out ex_lib enc [''Diet''] = Inr names
    \<and> objs s' (step_model (best_pipeline
          \<lparr>best_name = ''Random Forest'', best_pipeline = snd (ex_models ! 0)\<rparr>))
        = Some (Regressor kind n rs (Some (nf, fitted_model)))
    \<and> feature_importance_analysis ex_lib s'
          (Some \<lparr>best_name = ''Random Forest'', best_pipeline = snd (ex_models ! 0)\<rparr>)
          X [''Diet''] [] 2
        = (if length ([] @ names) = length (tree_importances ex_lib fitted_model)
           then Inr (Some (sort_values_desc ex_lib (zip ([] @ names) (tree_importances ex_lib fitted_model))))
           else Inl ValueError)
    \<and> main ex_lib 0 empty_store ex_table
        = (if length ([] @ names) = length (tree_importances ex_lib fitted_model)
           then Inr (s', \<lparr>best_name = ''Random Forest'', best_pipeline = snd (ex_models ! 0)\<rparr>, results,
                     Some (sort_values_desc ex_lib (zip ([] @ names) (tree_importances ex_lib fitted_model))))
           else Inl ValueError))"
proof -
  from ex_main_run obtain s1 X s' Xte yte results where
    pre: "preprocess_data empty_store ex_table = Inr (s1, X, ex_table ! 2, 2, [''Diet''], [])"
    and tm: "train_model ex_lib 0 s1 X (ex_table ! 2) 2
         = Inr (s', Some \<lparr>best_name = ''Random Forest'', best_pipeline = snd (ex_models ! 0)\<rparr>,
                Xte, yte, results)"
    by blast
  have cat: "[''Diet''] \<noteq> []" by simp
  note concl = main_feature_names_from_last_fit [OF pre tm cat]
  show ?thesis
    by (rule exI [of _ s1], rule exI [of _ X], rule exI [of _ s'], rule exI [of _ Xte],
        rule exI [of _ yte], rule exI [of _ results],
        rule conjI [OF pre], rule conjI [OF tm], rule conjI [OF cat concl])
qed

text \<open>
  Claim C10 as stated fails. On a table without a categorical column training succeeds,
  a candidate is selected and the importance analysis is reached; the encoder it reads
  from the shared preprocessor is the one \<open>preprocess_data\<close> created (address 1), which
  no candidate has fitted, and asking it for names fails.
\<close>

theorem main_feature_names_from_last_fit_counterexample:
  "\<exists>s1 X s2 b X_test y_test results.
      preprocess_data empty_store ex_table_numeric
        = Inr (s1, X, ex_table_numeric ! 1, 2, [], [''Distance''])
    \<and> train_model ex_lib 0 s1 X (ex_table_numeric ! 1) 2 = Inr (s2, Some b, X_test, y_test, results)
    \<and> objs s1 1 = Some (OneHotEncoder HU_ignore None)
    \<and> named_transformers s2 2 ''cat'' = Inr 1
    \<and> objs s2 1 = Some (OneHotEncoder HU_ignore None)
    \<and> feature_importance_analysis ex_lib s2 (Some b) X [] [''Distance''] 2 = Inl NotFittedError
    \<and> main ex_lib 0 empty_store ex_table_numeric = Inl NotFittedError"
  by (simp add: model_defs ex_defs Let_def upt_rec)




end
